theory Spec2Isabelle
  imports Complex_Main "HOL-Library.Char_ord" "HOL-Library.List_Lexorder" "HOL-Library.Multiset"
begin

section \<open>Values exchanged between agents\<close>

text \<open>
  Payloads are Python dictionaries with string keys and arbitrary JSON-like values
  (\<^verbatim>\<open>Dict[str, Any]\<close>). A dictionary is an association list in insertion order; Python
  keeps its keys distinct. Numbers are the integers; a \<^typ>\<open>char\<close> stands for a code
  point below 256.
\<close>

datatype json =
    JNull
  | JBool bool
  | JInt int
  | JStr string
  | JArr "json list"
  | JObj "(string \<times> json) list"

datatype py_error =
    RuntimeError string
  | TimeoutError string
  | TypeError string

definition hex_digit :: "nat \<Rightarrow> char" where
  "hex_digit n = ''0123456789abcdef'' ! (n mod 16)"

function digits :: "nat \<Rightarrow> string" where
  "digits n = (if n < 10 then [hex_digit n] else digits (n div 10) @ [hex_digit (n mod 10)])"
  by pat_completeness auto
termination
  by (relation "measure id") auto

definition str_int :: "int \<Rightarrow> string" where
  "str_int i = (if i < 0 then CHR ''-'' # digits (nat (- i)) else digits (nat i))"

fun join :: "string \<Rightarrow> string list \<Rightarrow> string" where
  "join sep [] = []"
| "join sep [x] = x"
| "join sep (x # y # ys) = x @ sep @ join sep (y # ys)"

text \<open>\<^verbatim>\<open>dict.get(key, default)\<close> on an association list.\<close>

definition dict_get :: "(string \<times> json) list \<Rightarrow> string \<Rightarrow> json \<Rightarrow> json" where
  "dict_get d k dflt = (case map_of d k of None \<Rightarrow> dflt | Some v \<Rightarrow> v)"

text \<open>Truth value of a Python object in \<^verbatim>\<open>if response:\<close>.\<close>

fun py_truthy :: "json \<Rightarrow> bool" where
  "py_truthy JNull = False"
| "py_truthy (JBool b) = b"
| "py_truthy (JInt i) = (i \<noteq> 0)"
| "py_truthy (JStr s) = (s \<noteq> [])"
| "py_truthy (JArr xs) = (xs \<noteq> [])"
| "py_truthy (JObj kvs) = (kvs \<noteq> [])"

text \<open>Lists and dictionaries cannot be hashed: looking one up in a dict or adding it to a
  set raises \<^verbatim>\<open>TypeError\<close>.\<close>

fun hashable :: "json \<Rightarrow> bool" where
  "hashable (JArr xs) = False"
| "hashable (JObj kvs) = False"
| "hashable v = True"

subsection \<open>\<^verbatim>\<open>json.dumps(obj, sort_keys=True)\<close>\<close>

definition escape_ascii :: "char \<Rightarrow> string" where
  "escape_ascii c =
     (if c = CHR 0x22 then [CHR 0x5C, CHR 0x22]
      else if c = CHR 0x5C then [CHR 0x5C, CHR 0x5C]
      else if c = CHR 0x0A then [CHR 0x5C, CHR ''n'']
      else if c = CHR 0x0D then [CHR 0x5C, CHR ''r'']
      else if c = CHR 0x09 then [CHR 0x5C, CHR ''t'']
      else if c = CHR 0x08 then [CHR 0x5C, CHR ''b'']
      else if c = CHR 0x0C then [CHR 0x5C, CHR ''f'']
      else if of_char c < (0x20::nat) \<or> (0x7E::nat) < of_char c
        then [CHR 0x5C, CHR ''u'', CHR ''0'', CHR ''0'',
              hex_digit (of_char c div 16), hex_digit (of_char c mod 16)]
      else [c])"

definition encode_basestring_ascii :: "string \<Rightarrow> string" where
  "encode_basestring_ascii s = CHR 0x22 # concat (map escape_ascii s) @ [CHR 0x22]"

function dumps_sorted :: "json \<Rightarrow> string" where
  "dumps_sorted JNull = ''null''"
| "dumps_sorted (JBool b) = (if b then ''true'' else ''false'')"
| "dumps_sorted (JInt i) = str_int i"
| "dumps_sorted (JStr s) = encode_basestring_ascii s"
| "dumps_sorted (JArr xs) = ''['' @ join '', '' (map dumps_sorted xs) @ '']''"
| "dumps_sorted (JObj kvs) =
     ''{'' @ join '', ''
        (map (\<lambda>kv. encode_basestring_ascii (fst kv) @ '': '' @ dumps_sorted (snd kv))
           (sort_key fst kvs)) @ ''}''"
  by pat_completeness auto
termination
proof (relation "measure size")
  show "wf (measure size)" by simp
next
  fix xs :: "json list" and x
  assume "x \<in> set xs"
  then show "(x, JArr xs) \<in> measure size"
    by (induction xs) auto
next
  fix kvs :: "(string \<times> json) list" and kv
  assume "kv \<in> set (sort_key fst kvs)"
  then have "kv \<in> set kvs" by simp
  then show "(snd kv, JObj kvs) \<in> measure size"
    by (induction kvs) auto
qed

text \<open>
  Two values are the same up to the iteration order of their dictionaries when they have
  the same normal form: every dictionary, at every depth, listed by ascending key.
\<close>

function key_sorted :: "json \<Rightarrow> json" where
  "key_sorted JNull = JNull"
| "key_sorted (JBool b) = JBool b"
| "key_sorted (JInt i) = JInt i"
| "key_sorted (JStr s) = JStr s"
| "key_sorted (JArr xs) = JArr (map key_sorted xs)"
| "key_sorted (JObj kvs) =
     JObj (sort_key fst (map (\<lambda>kv. (fst kv, key_sorted (snd kv))) kvs))"
  by pat_completeness auto
termination
proof (relation "measure size")
  show "wf (measure size)" by simp
next
  fix xs :: "json list" and x
  assume "x \<in> set xs"
  then show "(x, JArr xs) \<in> measure size"
    by (induction xs) auto
next
  fix kvs :: "(string \<times> json) list" and kv
  assume "kv \<in> set kvs"
  then show "(snd kv, JObj kvs) \<in> measure size"
    by (induction kvs) auto
qed

definition same_up_to_order :: "json \<Rightarrow> json \<Rightarrow> bool" where
  "same_up_to_order a b \<longleftrightarrow> key_sorted a = key_sorted b"

subsection \<open>\<^verbatim>\<open>str\<close> and \<^verbatim>\<open>repr\<close>, as used by f-strings\<close>

definition repr_quote :: "string \<Rightarrow> char" where
  "repr_quote s = (if CHR 0x27 \<in> set s \<and> CHR 0x22 \<notin> set s then CHR 0x22 else CHR 0x27)"

definition repr_char :: "char \<Rightarrow> char \<Rightarrow> string" where
  "repr_char q c =
     (if c = q \<or> c = CHR 0x5C then [CHR 0x5C, c]
      else if c = CHR 0x09 then [CHR 0x5C, CHR ''t'']
      else if c = CHR 0x0A then [CHR 0x5C, CHR ''n'']
      else if c = CHR 0x0D then [CHR 0x5C, CHR ''r'']
      else if of_char c < (0x20::nat) \<or> ((0x7F::nat) \<le> of_char c \<and> of_char c \<le> (0xA0::nat))
              \<or> of_char c = (0xAD::nat)
        then [CHR 0x5C, CHR ''x'', hex_digit (of_char c div 16), hex_digit (of_char c mod 16)]
      else [c])"

definition repr_str :: "string \<Rightarrow> string" where
  "repr_str s = (let q = repr_quote s in q # concat (map (repr_char q) s) @ [q])"

function py_repr :: "json \<Rightarrow> string" where
  "py_repr JNull = ''None''"
| "py_repr (JBool b) = (if b then ''True'' else ''False'')"
| "py_repr (JInt i) = str_int i"
| "py_repr (JStr s) = repr_str s"
| "py_repr (JArr xs) = ''['' @ join '', '' (map py_repr xs) @ '']''"
| "py_repr (JObj kvs) =
     ''{'' @ join '', '' (map (\<lambda>kv. repr_str (fst kv) @ '': '' @ py_repr (snd kv)) kvs) @ ''}''"
  by pat_completeness auto
termination
proof (relation "measure size")
  show "wf (measure size)" by simp
next
  fix xs :: "json list" and x
  assume "x \<in> set xs"
  then show "(x, JArr xs) \<in> measure size"
    by (induction xs) auto
next
  fix kvs :: "(string \<times> json) list" and kv
  assume "kv \<in> set kvs"
  then show "(snd kv, JObj kvs) \<in> measure size"
    by (induction kvs) auto
qed

definition py_str :: "json \<Rightarrow> string" where
  "py_str v = (case v of JStr s \<Rightarrow> s | _ \<Rightarrow> py_repr v)"

section \<open>Messages (\<^verbatim>\<open>core/message.py\<close>)\<close>

datatype MessageType =
    TASK_REQUEST
  | TASK_RESPONSE
  | CAPABILITY_ANNOUNCEMENT
  | CAPABILITY_QUERY
  | CAPABILITY_RESPONSE
  | STATUS_UPDATE
  | ERROR

fun enum_value :: "MessageType \<Rightarrow> string" where
  "enum_value TASK_REQUEST = ''task_request''"
| "enum_value TASK_RESPONSE = ''task_response''"
| "enum_value CAPABILITY_ANNOUNCEMENT = ''capability_announcement''"
| "enum_value CAPABILITY_QUERY = ''capability_query''"
| "enum_value CAPABILITY_RESPONSE = ''capability_response''"
| "enum_value STATUS_UPDATE = ''status_update''"
| "enum_value ERROR = ''error''"

record A2AMessage =
  message_id :: string
  sender_id :: string
  recipient_id :: string
  message_type :: MessageType
  timestamp :: string
  payload :: "(string \<times> json) list"
  requires_response :: bool
  signature :: "string option"

section \<open>Rate limiter and security context (\<^verbatim>\<open>core/security.py\<close>)\<close>

text \<open>
  Clock readings (\<^verbatim>\<open>time.time()\<close>) are real numbers and are an argument of the call.
  \<open>stored rl i\<close> is \<^verbatim>\<open>self._requests[i]\<close> once a missing entry has been created empty.
\<close>

record rate_limiter =
  max_requests :: int
  window_seconds :: int
  requests :: "string \<rightharpoonup> real list"

definition RateLimiter :: "int \<Rightarrow> int \<Rightarrow> rate_limiter" where
  "RateLimiter m w = \<lparr>max_requests = m, window_seconds = w, requests = Map.empty\<rparr>"

definition stored :: "rate_limiter \<Rightarrow> string \<Rightarrow> real list" where
  "stored rl identifier = (case requests rl identifier of None \<Rightarrow> [] | Some ts \<Rightarrow> ts)"

definition is_allowed :: "real \<Rightarrow> string \<Rightarrow> rate_limiter \<Rightarrow> bool \<times> rate_limiter" where
  "is_allowed now identifier rl =
     (let window_start = now - real_of_int (window_seconds rl);
          kept = filter (\<lambda>req_time. req_time > window_start) (stored rl identifier)
      in if int (length kept) < max_requests rl
         then (True, rl\<lparr>requests := (requests rl)(identifier \<mapsto> kept @ [now])\<rparr>)
         else (False, rl\<lparr>requests := (requests rl)(identifier \<mapsto> kept)\<rparr>))"

text \<open>A run of calls \<open>(now, identifier)\<close>, and the timestamps accepted for one sender in it.\<close>

fun run_calls :: "rate_limiter \<Rightarrow> (real \<times> string) list \<Rightarrow> rate_limiter" where
  "run_calls rl [] = rl"
| "run_calls rl (c # cs) = run_calls (snd (is_allowed (fst c) (snd c) rl)) cs"

fun accepted :: "rate_limiter \<Rightarrow> (real \<times> string) list \<Rightarrow> string \<Rightarrow> real list" where
  "accepted rl [] j = []"
| "accepted rl (c # cs) j =
     (if snd c = j \<and> fst (is_allowed (fst c) (snd c) rl) then [fst c] else [])
       @ accepted (snd (is_allowed (fst c) (snd c) rl)) cs j"

text \<open>
  The bytes that \<^verbatim>\<open>sign_message\<close> hands to the RSA-PSS primitive. The primitive itself
  (private key, salt, base64) is a parameter \<open>pss\<close>.
\<close>

definition message_data :: "A2AMessage \<Rightarrow> json" where
  "message_data m = JObj
     [(''message_id'', JStr (message_id m)),
      (''sender_id'', JStr (sender_id m)),
      (''recipient_id'', JStr (recipient_id m)),
      (''message_type'', JStr (enum_value (message_type m))),
      (''timestamp'', JStr (timestamp m)),
      (''payload'', JObj (payload m))]"

definition message_bytes :: "A2AMessage \<Rightarrow> string" where
  "message_bytes m = dumps_sorted (message_data m)"

definition sign_message :: "(string \<Rightarrow> string) \<Rightarrow> A2AMessage \<Rightarrow> string" where
  "sign_message pss m = pss (message_bytes m)"

definition verify_message_signature :: "A2AMessage \<Rightarrow> bool" where
  "verify_message_signature m =
     (case signature m of None \<Rightarrow> False | Some sig \<Rightarrow> if sig = [] then False else True)"

definition is_trusted_agent :: "string \<Rightarrow> bool" where
  "is_trusted_agent agent = True"

definition check_rate_limit :: "real \<Rightarrow> string \<Rightarrow> rate_limiter \<Rightarrow> bool \<times> rate_limiter" where
  "check_rate_limit now agent rl = is_allowed now agent rl"

section \<open>Agent state and the bus client (\<^verbatim>\<open>a2a/client.py\<close>, \<^verbatim>\<open>core/agent.py\<close>)\<close>

record AgentCapability =
  name :: string
  description :: string
  parameters :: "(string \<times> json) list"
  version :: string

text \<open>
  \<open>a2a_client\<close> says whether \<^verbatim>\<open>self.a2a_client\<close> is set and connected; \<open>outbox\<close> lists
  the \<open>(channel, message)\<close> pairs published so far; \<open>uuid_count\<close> counts the calls of
  \<^verbatim>\<open>uuid4()\<close> made so far. Publishing on a connected client succeeds.
\<close>

record agent_state =
  agent_id :: string
  capabilities :: "(string \<times> AgentCapability) list"
  memory :: "string \<rightharpoonup> json"
  tasks :: "json set"
  a2a_client :: bool
  outbox :: "(string \<times> A2AMessage) list"
  uuid_count :: nat

text \<open>
  What a handler reads from outside the agent: the stream of UUID strings, the ISO
  timestamp of the moment, the signing primitive, and the subclass's \<^verbatim>\<open>execute_task\<close>
  (\<open>Inl\<close> the text of the exception it raised, \<open>Inr\<close> its result).
\<close>

record env =
  uuid4 :: "nat \<Rightarrow> string"
  utcnow :: string
  pss_sign :: "string \<Rightarrow> string"
  execute_task :: "string \<Rightarrow> json \<Rightarrow> A2AMessage \<Rightarrow> string + json"

definition fresh_uuid :: "env \<Rightarrow> agent_state \<Rightarrow> string \<times> agent_state" where
  "fresh_uuid e s = (uuid4 e (uuid_count s), s\<lparr>uuid_count := Suc (uuid_count s)\<rparr>)"

definition agent_channel :: "string \<Rightarrow> string" where
  "agent_channel aid = ''agentic:agent:'' @ aid"

definition broadcast_channel :: string where
  "broadcast_channel = ''agentic:broadcast''"

text \<open>The channels \<^verbatim>\<open>initialize\<close> subscribes to.\<close>

definition subscribed_channels :: "string \<Rightarrow> string list" where
  "subscribed_channels aid = [agent_channel aid, broadcast_channel]"

definition target_channel :: "A2AMessage \<Rightarrow> string" where
  "target_channel m =
     (if recipient_id m = ''*'' then ''agentic:broadcast''
      else ''agentic:agent:'' @ recipient_id m)"

definition prepare_message :: "env \<Rightarrow> string \<Rightarrow> A2AMessage \<Rightarrow> A2AMessage" where
  "prepare_message e aid m =
     (let m1 = (if sender_id m = [] then m\<lparr>sender_id := aid\<rparr> else m);
          m2 = (if timestamp m1 = [] then m1\<lparr>timestamp := utcnow e\<rparr> else m1)
      in m2\<lparr>signature := Some (sign_message (pss_sign e) m2)\<rparr>)"

definition send_message :: "env \<Rightarrow> A2AMessage \<Rightarrow> agent_state \<Rightarrow> agent_state" where
  "send_message e m s =
     (let m' = prepare_message e (agent_id s) m
      in s\<lparr>outbox := outbox s @ [(target_channel m', m')]\<rparr>)"

definition validate_message :: "real \<Rightarrow> A2AMessage \<Rightarrow> rate_limiter \<Rightarrow> bool \<times> rate_limiter" where
  "validate_message now m rl =
     (if \<not> verify_message_signature m then (False, rl)
      else if \<not> is_trusted_agent (sender_id m) then (False, rl)
      else if \<not> fst (check_rate_limit now (sender_id m) rl)
        then (False, snd (check_rate_limit now (sender_id m) rl))
      else (True, snd (check_rate_limit now (sender_id m) rl)))"

type_synonym handler = "A2AMessage \<Rightarrow> agent_state \<Rightarrow> agent_state"

definition handle_message :: "(MessageType \<rightharpoonup> handler) \<Rightarrow> A2AMessage \<Rightarrow> agent_state \<Rightarrow> agent_state" where
  "handle_message handlers m s =
     (case handlers (message_type m) of Some h \<Rightarrow> h m s | None \<Rightarrow> s)"

text \<open>
  One turn of the loop in \<^verbatim>\<open>_listen_for_messages\<close> while the client is running:
  \<open>kind\<close> is \<^verbatim>\<open>message["type"]\<close>, \<open>parsed\<close> is the outcome of \<^verbatim>\<open>A2AMessage.parse_raw\<close>
  (\<open>None\<close> when it raises). A handler is a state transformer: what it did before an
  exception that the loop catches is part of its result.
\<close>

definition listen_step ::
  "(MessageType \<rightharpoonup> handler) \<Rightarrow> real \<Rightarrow> string \<Rightarrow> A2AMessage option
     \<Rightarrow> rate_limiter \<times> agent_state \<Rightarrow> rate_limiter \<times> agent_state" where
  "listen_step handlers now kind parsed st =
     (if kind \<noteq> ''message'' then st
      else case parsed of
        None \<Rightarrow> st
      | Some m \<Rightarrow>
          if sender_id m = agent_id (snd st) then st
          else if \<not> fst (validate_message now m (fst st))
            then (snd (validate_message now m (fst st)), snd st)
          else (snd (validate_message now m (fst st)), handle_message handlers m (snd st)))"

subsection \<open>Task handlers\<close>

definition send_task_response ::
  "env \<Rightarrow> string \<Rightarrow> json \<Rightarrow> bool \<Rightarrow> json \<Rightarrow> json \<Rightarrow> agent_state \<Rightarrow> agent_state" where
  "send_task_response e recipient task_id success result err s =
     (if \<not> a2a_client s then s
      else let (mid, s1) = fresh_uuid e s;
               response = \<lparr>message_id = mid, sender_id = agent_id s1, recipient_id = recipient,
                  message_type = TASK_RESPONSE, timestamp = utcnow e,
                  payload = [(''task_id'', task_id), (''success'', JBool success),
                             (''result'', result), (''error'', err)],
                  requires_response = False, signature = None\<rparr>
           in send_message e response s1)"

definition unsupported_error :: "json \<Rightarrow> string" where
  "unsupported_error task_type =
     ''Capability '' @ [CHR 0x27] @ py_str task_type @ [CHR 0x27] @ '' not supported''"

definition handle_task_request :: "env \<Rightarrow> A2AMessage \<Rightarrow> agent_state \<Rightarrow> agent_state" where
  "handle_task_request e m s =
     (let (u, s1) = fresh_uuid e s;
          task_id = dict_get (payload m) ''task_id'' (JStr u);
          task_type = dict_get (payload m) ''task_type'' JNull;
          task_data = dict_get (payload m) ''data'' (JObj [])
      in if \<not> hashable task_type then s1
         else if task_type \<notin> JStr ` fst ` set (capabilities s1)
           then send_task_response e (sender_id m) task_id False JNull
                  (JStr (unsupported_error task_type)) s1
         else if \<not> hashable task_id then s1
         else let s2 = s1\<lparr>tasks := insert task_id (tasks s1)\<rparr>;
                  s3 = (case execute_task e (py_str task_type) task_data m of
                          Inr result \<Rightarrow>
                            send_task_response e (sender_id m) task_id True result JNull s2
                        | Inl msg \<Rightarrow>
                            send_task_response e (sender_id m) task_id False JNull (JStr msg) s2)
              in s3\<lparr>tasks := tasks s3 - {task_id}\<rparr>)"

definition handle_task_response :: "A2AMessage \<Rightarrow> agent_state \<Rightarrow> agent_state" where
  "handle_task_response m s =
     (let task_id = dict_get (payload m) ''task_id'' JNull
      in s\<lparr>memory := (memory s)(''task_response_'' @ py_str task_id \<mapsto> JObj (payload m))\<rparr>)"

definition cap_dict :: "AgentCapability \<Rightarrow> json" where
  "cap_dict c = JObj [(''name'', JStr (name c)), (''description'', JStr (description c)),
                      (''parameters'', JObj (parameters c)), (''version'', JStr (version c))]"

definition handle_capability_query :: "env \<Rightarrow> A2AMessage \<Rightarrow> agent_state \<Rightarrow> agent_state" where
  "handle_capability_query e m s =
     (let (mid, s1) = fresh_uuid e s;
          response = \<lparr>message_id = mid, sender_id = agent_id s1, recipient_id = sender_id m,
             message_type = CAPABILITY_RESPONSE, timestamp = utcnow e,
             payload = [(''capabilities'', JArr (map (cap_dict \<circ> snd) (capabilities s1)))],
             requires_response = False, signature = None\<rparr>
      in if \<not> a2a_client s1 then s1 else send_message e response s1)"

definition register_message_handlers :: "env \<Rightarrow> (MessageType \<rightharpoonup> handler)" where
  "register_message_handlers e =
     [TASK_REQUEST \<mapsto> handle_task_request e,
      TASK_RESPONSE \<mapsto> handle_task_response,
      CAPABILITY_QUERY \<mapsto> handle_capability_query e]"

subsection \<open>Sending a task and waiting for its response\<close>

text \<open>
  While \<^verbatim>\<open>send_task_to_agent\<close> sleeps, the listening loop runs. What the caller observes
  is a sequence of events: \<open>Deliver m\<close>, the loop hands the task response \<open>m\<close> to
  \<^verbatim>\<open>_handle_task_response\<close>; \<open>Wake t\<close>, the caller evaluates its loop condition and
  reads the clock as \<open>t\<close>. The outcome is \<open>None\<close> while the caller is still waiting at
  the end of the events given.
\<close>

datatype event = Deliver A2AMessage | Wake real

fun wait_for_response ::
  "real \<Rightarrow> real \<Rightarrow> string \<Rightarrow> event list \<Rightarrow> agent_state
     \<Rightarrow> (py_error + json) option \<times> agent_state" where
  "wait_for_response start_time timeout task_id [] s = (None, s)"
| "wait_for_response start_time timeout task_id (Deliver m # es) s =
     wait_for_response start_time timeout task_id es (handle_task_response m s)"
| "wait_for_response start_time timeout task_id (Wake t # es) s =
     (if t - start_time < timeout
      then (case memory s (''task_response_'' @ task_id) of
              None \<Rightarrow> wait_for_response start_time timeout task_id es s
            | Some response \<Rightarrow>
                if py_truthy response then (Some (Inr response), s)
                else wait_for_response start_time timeout task_id es s)
      else (Some (Inl (TimeoutError task_id)), s))"

definition send_task_to_agent ::
  "env \<Rightarrow> string \<Rightarrow> string \<Rightarrow> json \<Rightarrow> real \<Rightarrow> real \<Rightarrow> event list \<Rightarrow> agent_state
     \<Rightarrow> (py_error + json) option \<times> agent_state" where
  "send_task_to_agent e recipient task_type task_data timeout start_time events s =
     (if \<not> a2a_client s then (Some (Inl (RuntimeError ''A2A client not initialized'')), s)
      else let (task_id, s1) = fresh_uuid e s;
               (mid, s2) = fresh_uuid e s1;
               message = \<lparr>message_id = mid, sender_id = agent_id s2, recipient_id = recipient,
                  message_type = TASK_REQUEST, timestamp = utcnow e,
                  payload = [(''task_id'', JStr task_id), (''task_type'', JStr task_type),
                             (''data'', task_data)],
                  requires_response = True, signature = None\<rparr>
           in wait_for_response start_time timeout task_id events (send_message e message s2))"

text \<open>An event that stores a response under the slot of task \<open>tid\<close>.\<close>

fun is_response_for :: "string \<Rightarrow> event \<Rightarrow> bool" where
  "is_response_for tid (Deliver m) = (py_str (dict_get (payload m) ''task_id'' JNull) = tid)"
| "is_response_for tid (Wake t) = False"

text \<open>
  An event that leaves the caller waiting: a response stored under another slot, or a poll
  before the deadline. \<open>carries_task_id\<close>: a response whose payload has the task id \<open>tid\<close>
  under \<open>task_id\<close>; \<open>for_other_task\<close>: a response stored under another slot.
\<close>

fun leaves_waiting :: "real \<Rightarrow> real \<Rightarrow> string \<Rightarrow> event \<Rightarrow> bool" where
  "leaves_waiting start_time timeout tid (Deliver m) =
     (py_str (dict_get (payload m) ''task_id'' JNull) \<noteq> tid)"
| "leaves_waiting start_time timeout tid (Wake t) = (t - start_time < timeout)"

definition carries_task_id :: "string \<Rightarrow> A2AMessage \<Rightarrow> bool" where
  "carries_task_id tid m \<longleftrightarrow> map_of (payload m) ''task_id'' = Some (JStr tid)"

definition for_other_task :: "string \<Rightarrow> A2AMessage \<Rightarrow> bool" where
  "for_other_task tid m \<longleftrightarrow> py_str (dict_get (payload m) ''task_id'' JNull) \<noteq> tid"

text \<open>The messages published between two states of an agent.\<close>

definition published_since :: "agent_state \<Rightarrow> agent_state \<Rightarrow> A2AMessage list" where
  "published_since s s' = map snd (drop (length (outbox s)) (outbox s'))"

subsection \<open>Sample data\<close>

definition demo_env :: env where
  "demo_env = \<lparr>uuid4 = (\<lambda>n. ''uuid-'' @ digits n), utcnow = ''2024-01-01T00:00:00'',
     pss_sign = (\<lambda>b. ''c2ln''),
     execute_task = (\<lambda>t d m. if t = ''add'' then Inr (JInt 5) else Inl ''boom'')\<rparr>"

definition demo_agent :: agent_state where
  "demo_agent = \<lparr>agent_id = ''bob'',
     capabilities = [(''add'', \<lparr>name = ''add'', description = ''adds two numbers'',
                                parameters = [], version = ''1.0.0''\<rparr>)],
     memory = Map.empty, tasks = {}, a2a_client = True, outbox = [], uuid_count = 0\<rparr>"

definition demo_message :: "string \<Rightarrow> MessageType \<Rightarrow> (string \<times> json) list \<Rightarrow> string option \<Rightarrow> A2AMessage" where
  "demo_message sender kind p sg = \<lparr>message_id = ''m1'', sender_id = sender, recipient_id = ''bob'',
     message_type = kind, timestamp = ''2024-01-01T00:00:00'', payload = p,
     requires_response = True, signature = sg\<rparr>"

text \<open>A stream of identifiers that never repeats a value: a prefix and a tally.\<close>

definition unary_uuid :: "string \<Rightarrow> nat \<Rightarrow> string" where
  "unary_uuid p n = p @ replicate (Suc n) (CHR ''i'')"

section \<open>The rate limiter\<close>

lemma is_allowed_max [simp]: "max_requests (snd (is_allowed now i rl)) = max_requests rl"
  by (simp add: is_allowed_def Let_def)

lemma is_allowed_window [simp]: "window_seconds (snd (is_allowed now i rl)) = window_seconds rl"
  by (simp add: is_allowed_def Let_def)

lemma stored_is_allowed_other: "j \<noteq> i \<Longrightarrow> stored (snd (is_allowed now i rl)) j = stored rl j"
  by (simp add: is_allowed_def Let_def stored_def)

lemma stored_is_allowed_same:
  "stored (snd (is_allowed now i rl)) i =
     filter (\<lambda>t. now - real_of_int (window_seconds rl) < t) (stored rl i)
       @ (if fst (is_allowed now i rl) then [now] else [])"
  by (simp add: is_allowed_def Let_def stored_def)

lemma is_allowed_iff:
  "fst (is_allowed now i rl) \<longleftrightarrow>
     int (length (filter (\<lambda>t. now - real_of_int (window_seconds rl) < t) (stored rl i))) < max_requests rl"
  by (simp add: is_allowed_def Let_def)

lemma run_calls_max [simp]: "max_requests (run_calls rl cs) = max_requests rl"
  by (induction cs arbitrary: rl) simp_all

lemma run_calls_window [simp]: "window_seconds (run_calls rl cs) = window_seconds rl"
  by (induction cs arbitrary: rl) simp_all

lemma filter_window_mono:
  fixes t now w :: real
  assumes "t \<le> now"
  shows "filter (\<lambda>x. now - w < x) (filter (\<lambda>x. t - w < x) xs) = filter (\<lambda>x. now - w < x) xs"
proof -
  have "\<And>x. now - w < x \<Longrightarrow> t - w < x" using assms by simp
  then show ?thesis by (induction xs) auto
qed

lemma stored_window_history:
  assumes "\<forall>c \<in> set cs. fst c \<le> now"
  shows "filter (\<lambda>t. now - real_of_int (window_seconds rl) < t) (stored (run_calls rl cs) j) =
         filter (\<lambda>t. now - real_of_int (window_seconds rl) < t) (stored rl j @ accepted rl cs j)"
  using assms
proof (induction cs arbitrary: rl)
  case Nil
  then show ?case by simp
next
  case (Cons c cs)
  let ?rl' = "snd (is_allowed (fst c) (snd c) rl)"
  let ?P = "\<lambda>t. now - real_of_int (window_seconds rl) < t"
  have le: "fst c \<le> now" using Cons.prems by simp
  have ih: "filter ?P (stored (run_calls ?rl' cs) j) = filter ?P (stored ?rl' j @ accepted ?rl' cs j)"
    using Cons.IH [of ?rl'] Cons.prems by simp
  show ?case
  proof (cases "snd c = j")
    case True
    then show ?thesis
      using ih stored_is_allowed_same [of "fst c" j rl] filter_window_mono [OF le]
      by simp
  next
    case False
    then show ?thesis
      using ih stored_is_allowed_other [of j "snd c" "fst c" rl] by simp
  qed
qed


lemma fourth_call_rejected:
  fixes t1 t2 t3 t4 t5 :: real
  assumes m: "max_requests rl = 3" and e: "stored rl i = []"
    and o: "t1 \<le> t2" "t2 \<le> t3" "t3 \<le> t4"
    and w: "t4 - real_of_int (window_seconds rl) < t1"
  shows "fst (is_allowed t1 i rl)"
    and "fst (is_allowed t2 i (run_calls rl [(t1, i)]))"
    and "fst (is_allowed t3 i (run_calls rl [(t1, i), (t2, i)]))"
    and "\<not> fst (is_allowed t4 i (run_calls rl [(t1, i), (t2, i), (t3, i)]))"
    and "t4 \<le> t5 \<Longrightarrow> t3 \<le> t5 - real_of_int (window_seconds rl) \<Longrightarrow>
           fst (is_allowed t5 i (run_calls rl [(t1, i), (t2, i), (t3, i), (t4, i)]))"
proof -
  let ?w = "real_of_int (window_seconds rl)"
  let ?rl1 = "snd (is_allowed t1 i rl)"
  let ?rl2 = "snd (is_allowed t2 i ?rl1)"
  let ?rl3 = "snd (is_allowed t3 i ?rl2)"
  let ?rl4 = "snd (is_allowed t4 i ?rl3)"
  show a1: "fst (is_allowed t1 i rl)"
    using m e by (simp add: is_allowed_iff)
  have s1: "stored ?rl1 i = [t1]"
    using a1 e by (simp add: stored_is_allowed_same)
  have k2: "t2 - ?w < t1" using o w by simp
  have a2: "fst (is_allowed t2 i ?rl1)"
    using m s1 by (simp add: is_allowed_iff)
  then show "fst (is_allowed t2 i (run_calls rl [(t1, i)]))" by simp
  have s2: "stored ?rl2 i = [t1, t2]"
    using a2 s1 k2 by (simp add: stored_is_allowed_same)
  have k3: "t3 - ?w < t1" "t3 - ?w < t2" using o w by simp_all
  have a3: "fst (is_allowed t3 i ?rl2)"
    using m s2 by (simp add: is_allowed_iff)
  then show "fst (is_allowed t3 i (run_calls rl [(t1, i), (t2, i)]))" by simp
  have s3: "stored ?rl3 i = [t1, t2, t3]"
    using a3 s2 k3 by (simp add: stored_is_allowed_same)
  have k4: "t4 - ?w < t1" "t4 - ?w < t2" "t4 - ?w < t3" using o w by simp_all
  have a4: "\<not> fst (is_allowed t4 i ?rl3)"
    using m s3 k4 by (simp add: is_allowed_iff)
  then show "\<not> fst (is_allowed t4 i (run_calls rl [(t1, i), (t2, i), (t3, i)]))" by simp
  have s4: "stored ?rl4 i = [t1, t2, t3]"
    using a4 s3 k4 by (simp add: stored_is_allowed_same)
  show "fst (is_allowed t5 i (run_calls rl [(t1, i), (t2, i), (t3, i), (t4, i)]))"
    if "t4 \<le> t5" "t3 \<le> t5 - ?w"
  proof -
    have "\<not> t5 - ?w < t1" "\<not> t5 - ?w < t2" "\<not> t5 - ?w < t3" using that o by simp_all
    then show ?thesis using m s4 by (simp add: is_allowed_iff)
  qed
qed

lemma stored_fresh: "requests rl = Map.empty \<Longrightarrow> stored rl i = []"
  by (simp add: stored_def)

text \<open>
  Claim C6. On a new limiter, with clock readings that never run backwards, a call for a
  sender is accepted exactly when fewer than \<open>max_requests\<close> of that sender's accepted
  timestamps lie within the last \<open>window_seconds\<close>; the list kept for the sender is the
  pruned one, with the current reading appended on acceptance. With \<open>max_requests = 3\<close>,
  three calls inside one window are accepted and the fourth is rejected; once the window
  has passed, the sender is accepted again.
\<close>

theorem check_rate_limit_sliding_window:
  fixes now t1 t2 t3 t4 t5 :: real
  assumes fresh: "requests rl = Map.empty"
    and later: "\<forall>c \<in> set cs. fst c \<le> now"
  shows "(fst (check_rate_limit now i (run_calls rl cs)) \<longleftrightarrow>
            int (length (filter (\<lambda>t. now - real_of_int (window_seconds rl) < t) (accepted rl cs i)))
              < max_requests rl)
       \<and> stored (snd (check_rate_limit now i (run_calls rl cs))) i =
            filter (\<lambda>t. now - real_of_int (window_seconds rl) < t) (stored (run_calls rl cs) i)
              @ (if fst (check_rate_limit now i (run_calls rl cs)) then [now] else [])
       \<and> (max_requests rl = 3 \<and> t1 \<le> t2 \<and> t2 \<le> t3 \<and> t3 \<le> t4
            \<and> t4 - real_of_int (window_seconds rl) < t1 \<longrightarrow>
            fst (check_rate_limit t1 i rl)
            \<and> fst (check_rate_limit t2 i (run_calls rl [(t1, i)]))
            \<and> fst (check_rate_limit t3 i (run_calls rl [(t1, i), (t2, i)]))
            \<and> \<not> fst (check_rate_limit t4 i (run_calls rl [(t1, i), (t2, i), (t3, i)]))
            \<and> (t4 \<le> t5 \<and> t3 \<le> t5 - real_of_int (window_seconds rl) \<longrightarrow>
                 fst (check_rate_limit t5 i (run_calls rl [(t1, i), (t2, i), (t3, i), (t4, i)]))))"
proof (intro conjI impI)
  let ?P = "\<lambda>t. now - real_of_int (window_seconds rl) < t"
  have "filter ?P (stored (run_calls rl cs) i) = filter ?P (accepted rl cs i)"
    using stored_window_history [OF later, of rl i] stored_fresh [OF fresh] by simp
  then show "fst (check_rate_limit now i (run_calls rl cs)) \<longleftrightarrow>
      int (length (filter ?P (accepted rl cs i))) < max_requests rl"
    by (simp add: check_rate_limit_def is_allowed_iff)
  show "stored (snd (check_rate_limit now i (run_calls rl cs))) i =
      filter ?P (stored (run_calls rl cs) i)
        @ (if fst (check_rate_limit now i (run_calls rl cs)) then [now] else [])"
    by (simp add: check_rate_limit_def stored_is_allowed_same)
next
  assume h: "max_requests rl = 3 \<and> t1 \<le> t2 \<and> t2 \<le> t3 \<and> t3 \<le> t4
            \<and> t4 - real_of_int (window_seconds rl) < t1"
  note f = fourth_call_rejected [of rl i t1 t2 t3 t4, OF _ stored_fresh [OF fresh]]
  show "fst (check_rate_limit t1 i rl)"
    unfolding check_rate_limit_def using h by (intro f(1)) simp_all
  show "fst (check_rate_limit t2 i (run_calls rl [(t1, i)]))"
    unfolding check_rate_limit_def using h by (intro f(2)) simp_all
  show "fst (check_rate_limit t3 i (run_calls rl [(t1, i), (t2, i)]))"
    unfolding check_rate_limit_def using h by (intro f(3)) simp_all
  show "\<not> fst (check_rate_limit t4 i (run_calls rl [(t1, i), (t2, i), (t3, i)]))"
    unfolding check_rate_limit_def using h by (intro f(4)) simp_all
  assume h5: "t4 \<le> t5 \<and> t3 \<le> t5 - real_of_int (window_seconds rl)"
  show "fst (check_rate_limit t5 i (run_calls rl [(t1, i), (t2, i), (t3, i), (t4, i)]))"
    unfolding check_rate_limit_def using h h5 by (intro f(5)) simp_all
qed

theorem check_rate_limit_sliding_window_witness:
  "requests (RateLimiter 3 60) = Map.empty
   \<and> list_all (\<lambda>c. fst c \<le> (40::real)) [(0, ''a''), (10, ''b''), (20, ''a''), (30, ''a'')]
   \<and> accepted (RateLimiter 3 60) [(0, ''a''), (10, ''b''), (20, ''a''), (30, ''a'')] ''a'' = [0, 20, 30]
   \<and> \<not> fst (check_rate_limit 40 ''a''
          (run_calls (RateLimiter 3 60) [(0, ''a''), (10, ''b''), (20, ''a''), (30, ''a'')]))
   \<and> (3::int) = 3 \<and> (0::real) \<le> 1 \<and> (1::real) \<le> 2 \<and> (2::real) \<le> 3 \<and> (3::real) - 60 < 0
   \<and> \<not> fst (check_rate_limit 3 ''a'' (run_calls (RateLimiter 3 60) [(0, ''a''), (1, ''a''), (2, ''a'')]))
   \<and> (3::real) \<le> 62 \<and> (2::real) \<le> 62 - 60
   \<and> fst (check_rate_limit 62 ''a''
          (run_calls (RateLimiter 3 60) [(0, ''a''), (1, ''a''), (2, ''a''), (3, ''a'')]))"
proof -
  have fresh: "requests (RateLimiter 3 60) = Map.empty"
    by (simp add: RateLimiter_def)
  have later: "\<forall>c \<in> set [(0, ''a''), (10, ''b''), (20, ''a''), (30, ''a'')]. fst c \<le> (40::real)"
    by simp
  have acc: "accepted (RateLimiter 3 60) [(0, ''a''), (10, ''b''), (20, ''a''), (30, ''a'')] ''a'' = [0, 20, 30]"
    by (simp add: RateLimiter_def is_allowed_def stored_def Let_def)
  have m: "max_requests (RateLimiter 3 60) = 3" and w: "window_seconds (RateLimiter 3 60) = 60"
    by (simp_all add: RateLimiter_def)
  note t = check_rate_limit_sliding_window [OF fresh later, of "''a''" 0 1 2 3 62]
  show ?thesis
    using t by (simp add: RateLimiter_def is_allowed_def stored_def Let_def check_rate_limit_def)
qed


lemma stored_bound_step:
  assumes "\<forall>j. int (length (stored rl j)) \<le> max_requests rl"
  shows "int (length (stored (snd (is_allowed now i rl)) j)) \<le> max_requests rl"
proof (cases "j = i")
  case True
  let ?kept = "filter (\<lambda>t. now - real_of_int (window_seconds rl) < t) (stored rl i)"
  have "int (length ?kept) \<le> int (length (stored rl i))" by simp
  also have "\<dots> \<le> max_requests rl" using assms by simp
  finally have k: "int (length ?kept) \<le> max_requests rl" .
  show ?thesis
  proof (cases "fst (is_allowed now i rl)")
    case True
    then have "int (length ?kept) < max_requests rl" by (simp add: is_allowed_iff)
    then show ?thesis using \<open>j = i\<close> True by (simp add: stored_is_allowed_same)
  next
    case False
    then show ?thesis using \<open>j = i\<close> k by (simp add: stored_is_allowed_same)
  qed
next
  case False
  then show ?thesis using assms by (simp add: stored_is_allowed_other)
qed

lemma stored_bound_run:
  assumes "\<forall>j. int (length (stored rl j)) \<le> max_requests rl"
  shows "int (length (stored (run_calls rl cs) j)) \<le> max_requests rl"
  using assms
proof (induction cs arbitrary: rl)
  case Nil
  then show ?case by simp
next
  case (Cons c cs)
  have "\<forall>j. int (length (stored (snd (is_allowed (fst c) (snd c) rl)) j))
          \<le> max_requests (snd (is_allowed (fst c) (snd c) rl))"
    using stored_bound_step [OF Cons.prems] by simp
  from Cons.IH [OF this] show ?case by simp
qed

text \<open>
  Claim C10, amended. A call \<open>is_allowed now i\<close> with a positive window leaves for \<open>i\<close>, the
  sender checked, only timestamps strictly newer than \<open>now - window_seconds\<close>; the lists
  of all other senders are left as they were; and on a limiter created with a
  non-negative \<open>max_requests\<close> no list ever grows beyond \<open>max_requests\<close> entries.
\<close>

theorem is_allowed_prunes_checked_sender:
  "(0 < window_seconds rl \<longrightarrow>
      (\<forall>t \<in> set (stored (snd (is_allowed now i rl)) i). now - real_of_int (window_seconds rl) < t))
   \<and> (\<forall>j. j \<noteq> i \<longrightarrow> stored (snd (is_allowed now i rl)) j = stored rl j)
   \<and> (0 \<le> max_requests rl \<and> requests rl = Map.empty \<longrightarrow>
        (\<forall>j. int (length (stored (run_calls rl cs) j)) \<le> max_requests rl))"
proof (intro conjI impI allI ballI)
  fix t
  assume "0 < window_seconds rl" and "t \<in> set (stored (snd (is_allowed now i rl)) i)"
  then show "now - real_of_int (window_seconds rl) < t"
    by (auto simp: stored_is_allowed_same split: if_splits)
next
  fix j assume "j \<noteq> i"
  then show "stored (snd (is_allowed now i rl)) j = stored rl j"
    by (rule stored_is_allowed_other)
next
  fix j assume "0 \<le> max_requests rl \<and> requests rl = Map.empty"
  then have "\<forall>j. int (length (stored rl j)) \<le> max_requests rl"
    by (simp add: stored_fresh)
  then show "int (length (stored (run_calls rl cs) j)) \<le> max_requests rl"
    by (rule stored_bound_run)
qed

theorem is_allowed_prunes_checked_sender_witness:
  "0 < window_seconds (RateLimiter 2 60)
   \<and> stored (snd (is_allowed 100 ''a'' (run_calls (RateLimiter 2 60) [(0, ''a''), (50, ''a'')]))) ''a'' = [50, 100]
   \<and> list_all (\<lambda>t. 100 - real_of_int 60 < t) [50::real, 100]
   \<and> ''b'' \<noteq> ''a''
   \<and> stored (snd (is_allowed 100 ''a'' (run_calls (RateLimiter 2 60) [(0, ''b'')]))) ''b'' = [0]
   \<and> 0 \<le> max_requests (RateLimiter 2 60) \<and> requests (RateLimiter 2 60) = Map.empty
   \<and> int (length (stored (run_calls (RateLimiter 2 60) [(0, ''a''), (1, ''a''), (2, ''a'')]) ''a'')) \<le> 2"
  using is_allowed_prunes_checked_sender
    [of "run_calls (RateLimiter 2 60) [(0, ''a''), (50, ''a'')]" 100 "''a''" "[]"]
    is_allowed_prunes_checked_sender
    [of "RateLimiter 2 60" 100 "''a''" "[(0, ''a''), (1, ''a''), (2, ''a'')]"]
  by (simp add: RateLimiter_def is_allowed_def stored_def Let_def)

text \<open>
  The claim C10 as first stated asks that every sender's list hold only timestamps of the
  current window. A sender that stays silent keeps its old timestamps: after \<open>a\<close> calls
  at 0 and \<open>b\<close> at 100, with a window of 60, the list of \<open>a\<close> still holds 0.
\<close>

theorem is_allowed_stale_counterexample:
  "stored (run_calls (RateLimiter 3 60) [(0, ''a''), (100, ''b'')]) ''a'' = [0]
   \<and> \<not> (100 - real_of_int (window_seconds (RateLimiter 3 60)) < (0::real))"
  by (simp add: RateLimiter_def is_allowed_def stored_def Let_def)

section \<open>Signed bytes and channels\<close>

lemma insort_key_map_snd:
  "insort_key fst (fst kv, g (snd kv)) (map (\<lambda>kv. (fst kv, g (snd kv))) xs) =
     map (\<lambda>kv. (fst kv, g (snd kv))) (insort_key fst kv xs)"
  by (induction xs) simp_all

lemma sort_key_map_snd:
  "sort_key fst (map (\<lambda>kv. (fst kv, g (snd kv))) kvs) =
     map (\<lambda>kv. (fst kv, g (snd kv))) (sort_key fst kvs)"
  by (induction kvs) (simp_all add: insort_key_map_snd)

lemma sort_key_twice: "sort_key f (sort_key f xs) = sort_key f xs"
  by (rule sort_key_id_if_sorted) simp

lemma dumps_key_sorted: "dumps_sorted (key_sorted j) = dumps_sorted j"
proof (induction j rule: key_sorted.induct)
  case (5 xs)
  then have h: "map (\<lambda>x. dumps_sorted (key_sorted x)) xs = map dumps_sorted xs"
    by (intro map_cong) simp_all
  show ?case by (simp add: comp_def h)
next
  case (6 kvs)
  let ?r = "\<lambda>kv. encode_basestring_ascii (fst kv) @ '': '' @ dumps_sorted (snd kv)"
  let ?h = "\<lambda>kv. (fst kv, key_sorted (snd kv))"
  have h: "map (\<lambda>kv. ?r (?h kv)) (sort_key fst kvs) = map ?r (sort_key fst kvs)"
    using 6 by (intro map_cong) simp_all
  show ?case
    using h by (simp add: sort_key_twice sort_key_map_snd comp_def del: map_eq_conv)
qed simp_all

lemma same_up_to_order_dumps:
  "same_up_to_order a b \<Longrightarrow> dumps_sorted a = dumps_sorted b"
  unfolding same_up_to_order_def
  by (metis dumps_key_sorted)

lemma sort_key_permuted:
  assumes "distinct (map fst kvs)" and "distinct (map fst kvs')" and "set kvs = set kvs'"
  shows "sort_key fst kvs = sort_key fst kvs'"
proof (rule sort_key_inj_key_eq)
  have "distinct kvs" "distinct kvs'" using assms(1,2) by (simp_all add: distinct_map)
  then have "mset kvs = mset kvs'" using assms(3) by (simp add: set_eq_iff_mset_eq_distinct)
  then show "mset kvs = mset (sort_key fst kvs')" by simp
  show "inj_on fst (set kvs)" using assms(1) by (simp add: distinct_map)
  show "sorted (map fst (sort_key fst kvs'))" by simp
qed

lemma permuted_same_up_to_order:
  assumes "distinct (map fst kvs)" and "distinct (map fst kvs')" and "set kvs = set kvs'"
  shows "same_up_to_order (JObj kvs) (JObj kvs')"
  unfolding same_up_to_order_def
  by (simp add: sort_key_map_snd sort_key_permuted [OF assms])


text \<open>
  Claim C8, amended. The bytes that are signed are the sorted-key JSON encoding of six
  fields: \<open>message_id\<close>, \<open>sender_id\<close>, \<open>recipient_id\<close>, \<open>message_type\<close>, \<open>timestamp\<close> and
  \<open>payload\<close>; \<open>signature\<close> and \<open>requires_response\<close> have no part in them. Two messages that
  agree on the six fields, their payloads being the same up to the order of dictionary
  items at any depth, are signed over identical bytes; in particular any reordering of
  the items of a payload leaves the bytes unchanged.
\<close>

theorem message_bytes_canonical:
  "(message_id m1 = message_id m2 \<and> sender_id m1 = sender_id m2
      \<and> recipient_id m1 = recipient_id m2 \<and> message_type m1 = message_type m2
      \<and> timestamp m1 = timestamp m2
      \<and> same_up_to_order (JObj (payload m1)) (JObj (payload m2))
      \<longrightarrow> message_bytes m1 = message_bytes m2)
   \<and> (distinct (map fst kvs) \<and> distinct (map fst kvs') \<and> set kvs = set kvs'
      \<longrightarrow> message_bytes (m\<lparr>payload := kvs\<rparr>) = message_bytes (m\<lparr>payload := kvs'\<rparr>))
   \<and> message_bytes (m\<lparr>signature := sg, requires_response := rr\<rparr>) = message_bytes m
   \<and> sign_message pss m = pss (dumps_sorted (JObj
        [(''message_id'', JStr (message_id m)), (''sender_id'', JStr (sender_id m)),
         (''recipient_id'', JStr (recipient_id m)),
         (''message_type'', JStr (enum_value (message_type m))),
         (''timestamp'', JStr (timestamp m)), (''payload'', JObj (payload m))]))"
proof (intro conjI impI)
  assume h: "message_id m1 = message_id m2 \<and> sender_id m1 = sender_id m2
      \<and> recipient_id m1 = recipient_id m2 \<and> message_type m1 = message_type m2
      \<and> timestamp m1 = timestamp m2
      \<and> same_up_to_order (JObj (payload m1)) (JObj (payload m2))"
  then have "key_sorted (JObj (payload m1)) = key_sorted (JObj (payload m2))"
    by (simp add: same_up_to_order_def)
  then have "same_up_to_order (message_data m1) (message_data m2)"
    using h by (simp add: same_up_to_order_def message_data_def)
  then show "message_bytes m1 = message_bytes m2"
    unfolding message_bytes_def by (rule same_up_to_order_dumps)
next
  assume h: "distinct (map fst kvs) \<and> distinct (map fst kvs') \<and> set kvs = set kvs'"
  then have "same_up_to_order (JObj kvs) (JObj kvs')"
    by (simp add: permuted_same_up_to_order)
  then have "same_up_to_order (message_data (m\<lparr>payload := kvs\<rparr>)) (message_data (m\<lparr>payload := kvs'\<rparr>))"
    by (simp add: same_up_to_order_def message_data_def)
  then show "message_bytes (m\<lparr>payload := kvs\<rparr>) = message_bytes (m\<lparr>payload := kvs'\<rparr>)"
    unfolding message_bytes_def by (rule same_up_to_order_dumps)
next
  show "message_bytes (m\<lparr>signature := sg, requires_response := rr\<rparr>) = message_bytes m"
    by (simp add: message_bytes_def message_data_def)
  show "sign_message pss m = pss (dumps_sorted (JObj
        [(''message_id'', JStr (message_id m)), (''sender_id'', JStr (sender_id m)),
         (''recipient_id'', JStr (recipient_id m)),
         (''message_type'', JStr (enum_value (message_type m))),
         (''timestamp'', JStr (timestamp m)), (''payload'', JObj (payload m))]))"
    by (simp only: sign_message_def message_bytes_def message_data_def)
qed

theorem message_bytes_canonical_witness:
  "same_up_to_order (JObj [(''task_type'', JStr ''add''), (''data'', JObj [(''b'', JInt 3), (''a'', JInt 2)])])
                    (JObj [(''data'', JObj [(''a'', JInt 2), (''b'', JInt 3)]), (''task_type'', JStr ''add'')])
   \<and> message_bytes \<lparr>message_id = ''m1'', sender_id = ''alice'', recipient_id = ''bob'',
        message_type = TASK_REQUEST, timestamp = ''2024-01-01T00:00:00'',
        payload = [(''task_type'', JStr ''add''), (''data'', JObj [(''b'', JInt 3), (''a'', JInt 2)])],
        requires_response = True, signature = None\<rparr>
     = message_bytes \<lparr>message_id = ''m1'', sender_id = ''alice'', recipient_id = ''bob'',
        message_type = TASK_REQUEST, timestamp = ''2024-01-01T00:00:00'',
        payload = [(''data'', JObj [(''a'', JInt 2), (''b'', JInt 3)]), (''task_type'', JStr ''add'')],
        requires_response = False, signature = Some ''c2ln''\<rparr>
   \<and> distinct (map fst [(''x'', JInt 1), (''y'', JInt 2)])
   \<and> distinct (map fst [(''y'', JInt 2), (''x'', JInt 1)])
   \<and> set [(''x'', JInt 1), (''y'', JInt 2)] = set [(''y'', JInt 2), (''x'', JInt 1)]
   \<and> message_bytes \<lparr>message_id = ''m1'', sender_id = ''alice'', recipient_id = ''bob'',
        message_type = TASK_REQUEST, timestamp = ''2024-01-01T00:00:00'',
        payload = [(''x'', JInt 1), (''y'', JInt 2)],
        requires_response = True, signature = None\<rparr>
     = message_bytes \<lparr>message_id = ''m1'', sender_id = ''alice'', recipient_id = ''bob'',
        message_type = TASK_REQUEST, timestamp = ''2024-01-01T00:00:00'',
        payload = [(''y'', JInt 2), (''x'', JInt 1)],
        requires_response = True, signature = None\<rparr>"
  using message_bytes_canonical
    [of "\<lparr>message_id = ''m1'', sender_id = ''alice'', recipient_id = ''bob'',
        message_type = TASK_REQUEST, timestamp = ''2024-01-01T00:00:00'',
        payload = [(''task_type'', JStr ''add''), (''data'', JObj [(''b'', JInt 3), (''a'', JInt 2)])],
        requires_response = True, signature = None\<rparr>"
       "\<lparr>message_id = ''m1'', sender_id = ''alice'', recipient_id = ''bob'',
        message_type = TASK_REQUEST, timestamp = ''2024-01-01T00:00:00'',
        payload = [(''data'', JObj [(''a'', JInt 2), (''b'', JInt 3)]), (''task_type'', JStr ''add'')],
        requires_response = False, signature = Some ''c2ln''\<rparr>"
       "[(''x'', JInt 1), (''y'', JInt 2)]" "[(''y'', JInt 2), (''x'', JInt 1)]"
       "\<lparr>message_id = ''m1'', sender_id = ''alice'', recipient_id = ''bob'',
        message_type = TASK_REQUEST, timestamp = ''2024-01-01T00:00:00'',
        payload = [], requires_response = True, signature = None\<rparr>"]
  by (simp add: same_up_to_order_def insert_commute)

text \<open>
  The claim C8 as first stated lists five signed fields. The code also signs
  \<open>message_id\<close>: two messages that agree on sender, recipient, kind, timestamp and payload
  but differ in \<open>message_id\<close> are signed over different bytes.
\<close>

theorem message_bytes_message_id_counterexample:
  "message_bytes \<lparr>message_id = ''m1'', sender_id = ''alice'', recipient_id = ''bob'',
        message_type = TASK_REQUEST, timestamp = ''2024-01-01T00:00:00'',
        payload = [(''task_type'', JStr ''add'')],
        requires_response = True, signature = None\<rparr>
   \<noteq> message_bytes \<lparr>message_id = ''m2'', sender_id = ''alice'', recipient_id = ''bob'',
        message_type = TASK_REQUEST, timestamp = ''2024-01-01T00:00:00'',
        payload = [(''task_type'', JStr ''add'')],
        requires_response = True, signature = None\<rparr>"
  by (simp add: message_bytes_def message_data_def encode_basestring_ascii_def escape_ascii_def)

text \<open>
  Claim C4, amended. A message is published on \<open>agentic:broadcast\<close> when its recipient is
  \<open>*\<close> and on \<open>agentic:agent:\<close> followed by the recipient's id otherwise; \<^verbatim>\<open>send_message\<close>
  publishes on that channel a message with the same recipient; and the client subscribes
  to exactly the two channels \<open>agentic:agent:\<close> followed by its own id and
  \<open>agentic:broadcast\<close>.
\<close>

theorem send_message_channel:
  "(recipient_id m = ''*'' \<longrightarrow> target_channel m = ''agentic:broadcast'')
   \<and> (recipient_id m \<noteq> ''*'' \<longrightarrow> target_channel m = ''agentic:agent:'' @ recipient_id m)
   \<and> (\<exists>m'. outbox (send_message e m s) = outbox s @ [(target_channel m, m')]
          \<and> recipient_id m' = recipient_id m)
   \<and> subscribed_channels aid = [''agentic:agent:'' @ aid, ''agentic:broadcast'']"
  by (simp add: target_channel_def send_message_def prepare_message_def Let_def
      subscribed_channels_def agent_channel_def broadcast_channel_def)

theorem send_message_channel_witness:
  "target_channel \<lparr>message_id = ''m1'', sender_id = ''alice'', recipient_id = ''*'',
        message_type = CAPABILITY_ANNOUNCEMENT, timestamp = ''2024-01-01T00:00:00'',
        payload = [], requires_response = False, signature = None\<rparr> = ''agentic:broadcast''
   \<and> target_channel \<lparr>message_id = ''m1'', sender_id = ''alice'', recipient_id = ''bob'',
        message_type = TASK_REQUEST, timestamp = ''2024-01-01T00:00:00'',
        payload = [], requires_response = True, signature = None\<rparr> = ''agentic:agent:bob''"
  using send_message_channel
    [of "\<lparr>message_id = ''m1'', sender_id = ''alice'', recipient_id = ''*'',
        message_type = CAPABILITY_ANNOUNCEMENT, timestamp = ''2024-01-01T00:00:00'',
        payload = [], requires_response = False, signature = None\<rparr>"]
    send_message_channel
    [of "\<lparr>message_id = ''m1'', sender_id = ''alice'', recipient_id = ''bob'',
        message_type = TASK_REQUEST, timestamp = ''2024-01-01T00:00:00'',
        payload = [], requires_response = True, signature = None\<rparr>"]
  by simp

text \<open>
  The claim C4 as first stated names the channels \<open>bus:agent:<id>\<close> and \<open>bus:broadcast\<close>;
  the code's channel names start with \<open>agentic:\<close>.
\<close>

theorem target_channel_bus_counterexample:
  "target_channel \<lparr>message_id = ''m1'', sender_id = ''alice'', recipient_id = ''bob'',
        message_type = TASK_REQUEST, timestamp = ''2024-01-01T00:00:00'',
        payload = [], requires_response = True, signature = None\<rparr> \<noteq> ''bus:agent:'' @ ''bob''
   \<and> target_channel \<lparr>message_id = ''m1'', sender_id = ''alice'', recipient_id = ''*'',
        message_type = CAPABILITY_ANNOUNCEMENT, timestamp = ''2024-01-01T00:00:00'',
        payload = [], requires_response = False, signature = None\<rparr> \<noteq> ''bus:broadcast''
   \<and> subscribed_channels ''bob'' \<noteq> [''bus:agent:'' @ ''bob'', ''bus:broadcast'']"
  by (simp add: target_channel_def subscribed_channels_def agent_channel_def broadcast_channel_def)

section \<open>Signature verification\<close>

lemma verify_message_signature_iff:
  "verify_message_signature m \<longleftrightarrow> (\<exists>sg. signature m = Some sg \<and> sg \<noteq> [])"
  by (simp add: verify_message_signature_def split: option.splits)

text \<open>
  Claim C1 asks that verification fail once a signed field has been changed after
  signing. \<^verbatim>\<open>verify_message_signature\<close> looks at nothing but whether the signature is a
  non-empty string: an envelope whose payload was replaced after signing is accepted.
\<close>

theorem verify_accepts_mutated_payload:
  "verify_message_signature
     (\<lparr>message_id = ''m1'', sender_id = ''alice'', recipient_id = ''bob'',
        message_type = TASK_REQUEST, timestamp = ''2024-01-01T00:00:00'',
        payload = [(''task_type'', JStr ''add'')],
        requires_response = True, signature = Some ''c2ln''\<rparr>
      \<lparr>payload := [(''task_type'', JStr ''delete_all'')]\<rparr>)"
  by (simp add: verify_message_signature_def)

section \<open>Admission and task handling\<close>

lemmas demo_eval = send_task_to_agent_def handle_task_response_def send_message_def
  prepare_message_def fresh_uuid_def demo_agent_def demo_message_def demo_env_def
  dict_get_def py_str_def hex_digit_def carries_task_id_def for_other_task_def Let_def

lemma validate_message_cases:
  "validate_message now m rl =
     (if \<not> verify_message_signature m then (False, rl)
      else check_rate_limit now (sender_id m) rl)"
  by (simp add: validate_message_def is_trusted_agent_def prod_eq_iff)

text \<open>
  Claim C5. For a parsed inbound envelope the listening loop first drops what the agent
  itself sent, then checks the signature, then the trust policy (which accepts every
  sender), then the rate limit. In the first two cases neither the rate limiter nor the
  agent (its outbox, memory and task set) changes, so an envelope that fails verification
  takes no rate-limit slot; when the rate limit rejects, only the limiter changes; the
  handler runs only when every check has passed. Nothing is published on a drop.
\<close>

theorem listen_step_admission:
  "(sender_id m = agent_id s \<longrightarrow>
      listen_step handlers now ''message'' (Some m) (rl, s) = (rl, s))
   \<and> (sender_id m \<noteq> agent_id s \<and> \<not> verify_message_signature m \<longrightarrow>
      listen_step handlers now ''message'' (Some m) (rl, s) = (rl, s))
   \<and> is_trusted_agent (sender_id m)
   \<and> (sender_id m \<noteq> agent_id s \<and> verify_message_signature m
        \<and> \<not> fst (check_rate_limit now (sender_id m) rl) \<longrightarrow>
      listen_step handlers now ''message'' (Some m) (rl, s)
        = (snd (check_rate_limit now (sender_id m) rl), s))
   \<and> (sender_id m \<noteq> agent_id s \<and> verify_message_signature m
        \<and> fst (check_rate_limit now (sender_id m) rl) \<longrightarrow>
      listen_step handlers now ''message'' (Some m) (rl, s)
        = (snd (check_rate_limit now (sender_id m) rl), handle_message handlers m s))"
  by (simp add: listen_step_def validate_message_cases is_trusted_agent_def)


theorem listen_step_admission_witness:
  "sender_id (demo_message ''bob'' TASK_REQUEST [(''task_type'', JStr ''add'')] (Some ''c2ln''))
     = agent_id demo_agent
   \<and> listen_step (register_message_handlers demo_env) 5 ''message''
        (Some (demo_message ''bob'' TASK_REQUEST [(''task_type'', JStr ''add'')] (Some ''c2ln'')))
        (RateLimiter 1 60, demo_agent) = (RateLimiter 1 60, demo_agent)
   \<and> sender_id (demo_message ''alice'' TASK_REQUEST [(''task_type'', JStr ''add'')] None)
     \<noteq> agent_id demo_agent
   \<and> \<not> verify_message_signature (demo_message ''alice'' TASK_REQUEST [(''task_type'', JStr ''add'')] None)
   \<and> listen_step (register_message_handlers demo_env) 5 ''message''
        (Some (demo_message ''alice'' TASK_REQUEST [(''task_type'', JStr ''add'')] None))
        (RateLimiter 1 60, demo_agent) = (RateLimiter 1 60, demo_agent)
   \<and> verify_message_signature (demo_message ''alice'' TASK_REQUEST [(''task_type'', JStr ''add'')] (Some ''c2ln''))
   \<and> \<not> fst (check_rate_limit 5 ''alice'' (RateLimiter 0 60))
   \<and> snd (listen_step (register_message_handlers demo_env) 5 ''message''
        (Some (demo_message ''alice'' TASK_REQUEST [(''task_type'', JStr ''add'')] (Some ''c2ln'')))
        (RateLimiter 0 60, demo_agent)) = demo_agent
   \<and> fst (check_rate_limit 5 ''alice'' (RateLimiter 1 60))
   \<and> stored (fst (listen_step (register_message_handlers demo_env) 5 ''message''
        (Some (demo_message ''alice'' TASK_REQUEST [(''task_type'', JStr ''add'')] (Some ''c2ln'')))
        (RateLimiter 1 60, demo_agent))) ''alice'' = [5]
   \<and> snd (listen_step (register_message_handlers demo_env) 5 ''message''
        (Some (demo_message ''alice'' TASK_REQUEST [(''task_type'', JStr ''add'')] (Some ''c2ln'')))
        (RateLimiter 1 60, demo_agent))
     = handle_task_request demo_env
        (demo_message ''alice'' TASK_REQUEST [(''task_type'', JStr ''add'')] (Some ''c2ln'')) demo_agent"
proof -
  let ?H = "register_message_handlers demo_env"
  let ?p = "[(''task_type'', JStr ''add'')]"
  have own: "sender_id (demo_message ''bob'' TASK_REQUEST ?p (Some ''c2ln'')) = agent_id demo_agent"
    by (simp add: demo_message_def demo_agent_def)
  have other: "sender_id (demo_message ''alice'' TASK_REQUEST ?p sg) \<noteq> agent_id demo_agent" for sg
    by (simp add: demo_message_def demo_agent_def)
  have sid: "sender_id (demo_message ''alice'' TASK_REQUEST ?p sg) = ''alice''" for sg
    by (simp add: demo_message_def)
  have unsigned: "\<not> verify_message_signature (demo_message ''alice'' TASK_REQUEST ?p None)"
    by (simp add: verify_message_signature_def demo_message_def)
  have signed: "verify_message_signature (demo_message ''alice'' TASK_REQUEST ?p (Some ''c2ln''))"
    by (simp add: verify_message_signature_def demo_message_def)
  have full: "\<not> fst (check_rate_limit 5 ''alice'' (RateLimiter 0 60))"
    by (simp add: check_rate_limit_def is_allowed_def RateLimiter_def stored_def)
  have free: "fst (check_rate_limit 5 ''alice'' (RateLimiter 1 60))"
    by (simp add: check_rate_limit_def is_allowed_def RateLimiter_def stored_def)
  have st: "stored (snd (check_rate_limit 5 ''alice'' (RateLimiter 1 60))) ''alice'' = [5]"
    by (simp add: check_rate_limit_def is_allowed_def RateLimiter_def stored_def)
  have hm: "handle_message ?H (demo_message ''alice'' TASK_REQUEST ?p (Some ''c2ln'')) demo_agent
      = handle_task_request demo_env (demo_message ''alice'' TASK_REQUEST ?p (Some ''c2ln'')) demo_agent"
    by (simp add: handle_message_def register_message_handlers_def demo_message_def)
  note a = listen_step_admission
    [of "demo_message ''bob'' TASK_REQUEST ?p (Some ''c2ln'')" demo_agent ?H 5 "RateLimiter 1 60"]
  note b = listen_step_admission
    [of "demo_message ''alice'' TASK_REQUEST ?p None" demo_agent ?H 5 "RateLimiter 1 60"]
  note c = listen_step_admission
    [of "demo_message ''alice'' TASK_REQUEST ?p (Some ''c2ln'')" demo_agent ?H 5 "RateLimiter 0 60"]
  note d = listen_step_admission
    [of "demo_message ''alice'' TASK_REQUEST ?p (Some ''c2ln'')" demo_agent ?H 5 "RateLimiter 1 60"]
  show ?thesis
    using a b c d own other unsigned signed full free st hm by (simp add: sid)
qed

lemma send_task_response_no_client:
  "\<not> a2a_client s \<Longrightarrow> send_task_response e rcp tid ok res err s = s"
  by (simp add: send_task_response_def)

lemma send_task_response_outbox:
  assumes "a2a_client s"
  shows "\<exists>r. outbox (send_task_response e rcp tid ok res err s) = outbox s @ [(target_channel r, r)]
           \<and> message_type r = TASK_RESPONSE \<and> recipient_id r = rcp
           \<and> payload r = [(''task_id'', tid), (''success'', JBool ok), (''result'', res), (''error'', err)]"
  using assms
  by (simp add: send_task_response_def fresh_uuid_def send_message_def prepare_message_def Let_def)

lemma send_task_response_frame:
  "tasks (send_task_response e rcp tid ok res err s) = tasks s"
  "a2a_client (send_task_response e rcp tid ok res err s) = a2a_client s"
  "memory (send_task_response e rcp tid ok res err s) = memory s"
  by (simp_all add: send_task_response_def fresh_uuid_def send_message_def Let_def)

lemma send_task_response_execute:
  "send_task_response (e\<lparr>execute_task := f\<rparr>) rcp tid ok res err s
     = send_task_response e rcp tid ok res err s"
  by (simp add: send_task_response_def fresh_uuid_def send_message_def prepare_message_def Let_def)

lemma unsupported_error_name:
  "unsupported_error (JStr n) = ''Capability '' @ [CHR 0x27] @ n @ [CHR 0x27] @ '' not supported''"
  by (simp add: unsupported_error_def py_str_def)

lemma handle_task_request_unsupported:
  assumes "hashable (dict_get (payload m) ''task_type'' JNull)"
    and "dict_get (payload m) ''task_type'' JNull \<notin> JStr ` fst ` set (capabilities s)"
  shows "handle_task_request e m s =
     send_task_response e (sender_id m)
       (dict_get (payload m) ''task_id'' (JStr (uuid4 e (uuid_count s)))) False JNull
       (JStr (unsupported_error (dict_get (payload m) ''task_type'' JNull)))
       (s\<lparr>uuid_count := Suc (uuid_count s)\<rparr>)"
  using assms by (simp add: handle_task_request_def fresh_uuid_def Let_def)

text \<open>
  A task type that is hashable (a string, an integer, a boolean, or absent) and names no
  registered capability is answered: with the bus client up, the handler publishes one
  task response to the sender with \<open>success = False\<close> and an error text naming the task
  type, whatever \<^verbatim>\<open>execute_task\<close> would do, and leaves the set of active tasks as it was.
\<close>

lemma unsupported_capability_response:
  assumes client: "a2a_client s"
    and hash: "hashable (dict_get (payload m) ''task_type'' JNull)"
    and missing: "dict_get (payload m) ''task_type'' JNull \<notin> JStr ` fst ` set (capabilities s)"
  shows "(\<exists>r. outbox (handle_task_request e m s) = outbox s @ [(target_channel r, r)]
            \<and> message_type r = TASK_RESPONSE \<and> recipient_id r = sender_id m
            \<and> payload r =
                [(''task_id'', dict_get (payload m) ''task_id'' (JStr (uuid4 e (uuid_count s)))),
                 (''success'', JBool False), (''result'', JNull),
                 (''error'', JStr (unsupported_error (dict_get (payload m) ''task_type'' JNull)))])
       \<and> unsupported_error (JStr n)
            = ''Capability '' @ [CHR 0x27] @ n @ [CHR 0x27] @ '' not supported''
       \<and> handle_task_request (e\<lparr>execute_task := f\<rparr>) m s = handle_task_request e m s
       \<and> tasks (handle_task_request e m s) = tasks s"
proof -
  let ?s1 = "s\<lparr>uuid_count := Suc (uuid_count s)\<rparr>"
  have c1: "a2a_client ?s1" using client by simp
  note u = handle_task_request_unsupported [OF hash missing]
  have "\<exists>r. outbox (handle_task_request e m s) = outbox ?s1 @ [(target_channel r, r)]
            \<and> message_type r = TASK_RESPONSE \<and> recipient_id r = sender_id m
            \<and> payload r =
                [(''task_id'', dict_get (payload m) ''task_id'' (JStr (uuid4 e (uuid_count s)))),
                 (''success'', JBool False), (''result'', JNull),
                 (''error'', JStr (unsupported_error (dict_get (payload m) ''task_type'' JNull)))]"
    unfolding u by (rule send_task_response_outbox [OF c1])
  moreover have "handle_task_request (e\<lparr>execute_task := f\<rparr>) m s = handle_task_request e m s"
    unfolding u handle_task_request_unsupported [OF hash missing, of "e\<lparr>execute_task := f\<rparr>"]
    by (simp add: send_task_response_execute)
  moreover have "tasks (handle_task_request e m s) = tasks s"
    unfolding u by (simp add: send_task_response_frame)
  ultimately show ?thesis
    by (simp add: unsupported_error_name)
qed

lemma unsupported_capability_response_example:
  "a2a_client demo_agent
   \<and> hashable (dict_get [(''task_id'', JStr ''t1''), (''task_type'', JStr ''mul'')] ''task_type'' JNull)
   \<and> dict_get [(''task_id'', JStr ''t1''), (''task_type'', JStr ''mul'')] ''task_type'' JNull
        \<notin> JStr ` fst ` set (capabilities demo_agent)
   \<and> map (\<lambda>cr. (fst cr, recipient_id (snd cr), payload (snd cr)))
        (outbox (handle_task_request demo_env
          (demo_message ''alice'' TASK_REQUEST [(''task_id'', JStr ''t1''), (''task_type'', JStr ''mul'')]
             (Some ''c2ln'')) demo_agent))
      = [(''agentic:agent:alice'', ''alice'',
          [(''task_id'', JStr ''t1''), (''success'', JBool False), (''result'', JNull),
           (''error'', JStr (''Capability '' @ [CHR 0x27] @ ''mul'' @ [CHR 0x27] @ '' not supported''))])]
   \<and> tasks (handle_task_request demo_env
          (demo_message ''alice'' TASK_REQUEST [(''task_id'', JStr ''t1''), (''task_type'', JStr ''mul'')]
             (Some ''c2ln'')) demo_agent) = {}"
proof -
  let ?m = "demo_message ''alice'' TASK_REQUEST [(''task_id'', JStr ''t1''), (''task_type'', JStr ''mul'')] (Some ''c2ln'')"
  have p: "payload ?m = [(''task_id'', JStr ''t1''), (''task_type'', JStr ''mul'')]"
    and sd: "sender_id ?m = ''alice''"
    by (simp_all add: demo_message_def)
  have client: "a2a_client demo_agent" by (simp add: demo_agent_def)
  have hash: "hashable (dict_get (payload ?m) ''task_type'' JNull)"
    by (simp add: p dict_get_def)
  have missing: "dict_get (payload ?m) ''task_type'' JNull \<notin> JStr ` fst ` set (capabilities demo_agent)"
    by (simp add: p dict_get_def demo_agent_def)
  have t0: "tasks demo_agent = {}" and o0: "outbox demo_agent = []"
    by (simp_all add: demo_agent_def)
  from unsupported_capability_response [OF client hash missing, of demo_env "''mul''" "execute_task demo_env"]
  obtain r where r: "outbox (handle_task_request demo_env ?m demo_agent) = [(target_channel r, r)]"
      "recipient_id r = ''alice''"
      "payload r = [(''task_id'', JStr ''t1''), (''success'', JBool False), (''result'', JNull),
           (''error'', JStr (unsupported_error (JStr ''mul'')))]"
      and t: "tasks (handle_task_request demo_env ?m demo_agent) = {}"
    by (auto simp: p sd t0 o0 dict_get_def)
  have ch: "target_channel r = ''agentic:agent:alice''"
    using r(2) by (simp add: target_channel_def)
  show ?thesis
    using client hash missing r t ch
    by (simp add: p unsupported_error_name)
qed

text \<open>
  Claim C7 asks for a failed task response whenever the task type is not in the registry.
  A task type that is a list is not in the registry, but testing it against the registry
  raises \<^verbatim>\<open>TypeError\<close>, which the handler catches and logs: nothing is published. The task
  type \<open>1\<close>, equally outside the registry, is answered.
\<close>

theorem unhashable_task_type_no_response:
  "a2a_client demo_agent
   \<and> dict_get [(''task_id'', JStr ''t1''), (''task_type'', JArr [])] ''task_type'' JNull
        \<notin> JStr ` fst ` set (capabilities demo_agent)
   \<and> outbox (handle_task_request demo_env
        (demo_message ''alice'' TASK_REQUEST [(''task_id'', JStr ''t1''), (''task_type'', JArr [])]
           (Some ''c2ln'')) demo_agent) = []
   \<and> map (\<lambda>cr. (fst cr, payload (snd cr)))
        (outbox (handle_task_request demo_env
          (demo_message ''alice'' TASK_REQUEST [(''task_id'', JStr ''t1''), (''task_type'', JInt 1)]
             (Some ''c2ln'')) demo_agent))
      = [(''agentic:agent:alice'',
          [(''task_id'', JStr ''t1''), (''success'', JBool False), (''result'', JNull),
           (''error'', JStr (''Capability '' @ [CHR 0x27] @ ''1'' @ [CHR 0x27] @ '' not supported''))])]"
  by (simp add: handle_task_request_def send_task_response_def send_message_def
      prepare_message_def target_channel_def unsupported_error_def str_int_def demo_eval)

lemma handle_task_request_supported:
  assumes "hashable (dict_get (payload m) ''task_type'' JNull)"
    and "dict_get (payload m) ''task_type'' JNull \<in> JStr ` fst ` set (capabilities s)"
    and "hashable (dict_get (payload m) ''task_id'' (JStr (uuid4 e (uuid_count s))))"
  shows "handle_task_request e m s =
     (let tid = dict_get (payload m) ''task_id'' (JStr (uuid4 e (uuid_count s)));
          s1 = s\<lparr>uuid_count := Suc (uuid_count s)\<rparr>;
          s2 = s1\<lparr>tasks := insert tid (tasks s1)\<rparr>;
          s3 = (case execute_task e (py_str (dict_get (payload m) ''task_type'' JNull))
                       (dict_get (payload m) ''data'' (JObj [])) m of
                  Inr result \<Rightarrow> send_task_response e (sender_id m) tid True result JNull s2
                | Inl msg \<Rightarrow> send_task_response e (sender_id m) tid False JNull (JStr msg) s2)
      in s3\<lparr>tasks := tasks s3 - {tid}\<rparr>)"
proof -
  have a: "\<not> \<not> hashable (dict_get (payload m) ''task_type'' JNull)" using assms(1) by simp
  have b: "\<not> dict_get (payload m) ''task_type'' JNull
            \<notin> JStr ` fst ` set (capabilities (s\<lparr>uuid_count := Suc (uuid_count s)\<rparr>))"
    using assms(2) by simp
  have c: "\<not> \<not> hashable (dict_get (payload m) ''task_id'' (JStr (uuid4 e (uuid_count s))))"
    using assms(3) by simp
  show ?thesis
    unfolding handle_task_request_def fresh_uuid_def Let_def prod.case
    by (simp only: a b c if_False)
qed

lemma send_task_response_drawn:
  "\<exists>new. outbox (send_task_response e rcp tid ok res err s) = outbox s @ new
      \<and> list_all (\<lambda>cr. message_type (snd cr) = TASK_RESPONSE \<and> recipient_id (snd cr) = rcp
            \<and> map_of (payload (snd cr)) ''task_id'' = Some tid
            \<and> message_id (snd cr) = uuid4 e (uuid_count s)) new
      \<and> (a2a_client s \<longrightarrow> length new = 1)
      \<and> uuid_count s \<le> uuid_count (send_task_response e rcp tid ok res err s)"
proof (cases "a2a_client s")
  case True
  let ?r = "prepare_message e (agent_id s)
      \<lparr>message_id = uuid4 e (uuid_count s), sender_id = agent_id s, recipient_id = rcp,
       message_type = TASK_RESPONSE, timestamp = utcnow e,
       payload = [(''task_id'', tid), (''success'', JBool ok), (''result'', res), (''error'', err)],
       requires_response = False, signature = None\<rparr>"
  have "outbox (send_task_response e rcp tid ok res err s) = outbox s @ [(target_channel ?r, ?r)]"
    and "uuid_count s \<le> uuid_count (send_task_response e rcp tid ok res err s)"
    using True by (simp_all add: send_task_response_def fresh_uuid_def send_message_def Let_def)
  moreover have "message_type ?r = TASK_RESPONSE \<and> recipient_id ?r = rcp
      \<and> map_of (payload ?r) ''task_id'' = Some tid \<and> message_id ?r = uuid4 e (uuid_count s)"
    by (simp add: prepare_message_def Let_def)
  ultimately show ?thesis
    by (intro exI [of _ "[(target_channel ?r, ?r)]"]) simp
next
  case False
  then show ?thesis
    by (intro exI [of _ "[]"]) (simp add: send_task_response_no_client)
qed

lemma drawn_from_response:
  assumes "outbox hs = outbox (send_task_response e rcp tid ok res err s')"
    and "uuid_count hs = uuid_count (send_task_response e rcp tid ok res err s')"
    and "outbox s' = outbox s" and "a2a_client s' = a2a_client s"
    and "uuid_count s' = Suc (uuid_count s)"
  shows "\<exists>new. outbox hs = outbox s @ new
      \<and> list_all (\<lambda>cr. message_type (snd cr) = TASK_RESPONSE \<and> recipient_id (snd cr) = rcp
            \<and> map_of (payload (snd cr)) ''task_id'' = Some tid
            \<and> message_id (snd cr) = uuid4 e (Suc (uuid_count s))) new
      \<and> (a2a_client s \<and> H \<longrightarrow> length new = 1)
      \<and> uuid_count s < uuid_count hs"
proof -
  from send_task_response_drawn [of e rcp tid ok res err s']
  obtain new where "outbox (send_task_response e rcp tid ok res err s') = outbox s' @ new"
    and "list_all (\<lambda>cr. message_type (snd cr) = TASK_RESPONSE \<and> recipient_id (snd cr) = rcp
            \<and> map_of (payload (snd cr)) ''task_id'' = Some tid
            \<and> message_id (snd cr) = uuid4 e (uuid_count s')) new"
    and "a2a_client s' \<longrightarrow> length new = 1"
    and "uuid_count s' \<le> uuid_count (send_task_response e rcp tid ok res err s')"
    by blast
  then show ?thesis
    unfolding assms by (intro exI [of _ new]) simp
qed

lemma handle_task_request_drawn:
  assumes "map_of (payload m) ''task_id'' = None"
  shows "\<exists>new. outbox (handle_task_request e m s) = outbox s @ new
      \<and> list_all (\<lambda>cr. message_type (snd cr) = TASK_RESPONSE \<and> recipient_id (snd cr) = sender_id m
            \<and> map_of (payload (snd cr)) ''task_id'' = Some (JStr (uuid4 e (uuid_count s)))
            \<and> message_id (snd cr) = uuid4 e (Suc (uuid_count s))) new
      \<and> (a2a_client s \<and> hashable (dict_get (payload m) ''task_type'' JNull) \<longrightarrow> length new = 1)
      \<and> uuid_count s < uuid_count (handle_task_request e m s)"
proof -
  let ?u = "JStr (uuid4 e (uuid_count s))"
  let ?tt = "dict_get (payload m) ''task_type'' JNull"
  let ?s1 = "s\<lparr>uuid_count := Suc (uuid_count s)\<rparr>"
  let ?s2 = "?s1\<lparr>tasks := insert ?u (tasks ?s1)\<rparr>"
  have tid: "dict_get (payload m) ''task_id'' ?u = ?u"
    using assms by (simp add: dict_get_def)
  have hu: "hashable (dict_get (payload m) ''task_id'' ?u)"
    by (simp add: tid)
  show ?thesis
  proof (cases "hashable ?tt")
    case False
    then have "handle_task_request e m s = ?s1"
      by (simp add: handle_task_request_def fresh_uuid_def Let_def)
    then have "outbox (handle_task_request e m s) = outbox s"
      and "uuid_count s < uuid_count (handle_task_request e m s)"
      by simp_all
    then show ?thesis
      using False by (intro exI [of _ "[]"]) simp
  next
    case True
    show ?thesis
    proof (cases "?tt \<in> JStr ` fst ` set (capabilities s)")
      case False
      have eq: "handle_task_request e m s
          = send_task_response e (sender_id m) ?u False JNull (JStr (unsupported_error ?tt)) ?s1"
        using handle_task_request_unsupported [OF True False, of e] unfolding tid .
      show ?thesis
        by (rule drawn_from_response [where s' = ?s1]) (simp_all add: eq)
    next
      case inreg: True
      show ?thesis
      proof (cases "execute_task e (py_str ?tt) (dict_get (payload m) ''data'' (JObj [])) m")
        case (Inl msg)
        have "outbox (handle_task_request e m s)
            = outbox (send_task_response e (sender_id m) ?u False JNull (JStr msg) ?s2)"
          and "uuid_count (handle_task_request e m s)
            = uuid_count (send_task_response e (sender_id m) ?u False JNull (JStr msg) ?s2)"
          unfolding handle_task_request_supported [OF True inreg hu] Let_def tid Inl
          by simp_all
        then show ?thesis
          by (rule drawn_from_response) simp_all
      next
        case (Inr result)
        have "outbox (handle_task_request e m s)
            = outbox (send_task_response e (sender_id m) ?u True result JNull ?s2)"
          and "uuid_count (handle_task_request e m s)
            = uuid_count (send_task_response e (sender_id m) ?u True result JNull ?s2)"
          unfolding handle_task_request_supported [OF True inreg hu] Let_def tid Inr
          by simp_all
        then show ?thesis
          by (rule drawn_from_response) simp_all
      qed
    qed
  qed
qed

lemma outbox_wait_for_response:
  "outbox (snd (wait_for_response start_time timeout tid evs s)) = outbox s"
proof (induction evs arbitrary: s)
  case Nil
  then show ?case by simp
next
  case (Cons ev evs)
  show ?case
  proof (cases ev)
    case (Deliver m)
    then show ?thesis
      using Cons.IH [of "handle_task_response m s"] by (simp add: handle_task_response_def)
  next
    case (Wake t)
    then show ?thesis
      using Cons.IH [of s] by (simp split: option.splits)
  qed
qed

lemma send_task_to_agent_published:
  assumes "a2a_client sA"
  shows "map (\<lambda>q. (message_type q, map_of (payload q) ''task_id''))
           (published_since sA (snd (send_task_to_agent eA rcp tt d timeout start_time evs sA)))
         = [(TASK_REQUEST, Some (JStr (uuid4 eA (uuid_count sA))))]"
  using assms
  by (simp add: published_since_def send_task_to_agent_def fresh_uuid_def Let_def
      outbox_wait_for_response send_message_def prepare_message_def)

lemma uuid_count_wait_for_response:
  "uuid_count (snd (wait_for_response start_time timeout tid evs s)) = uuid_count s"
proof (induction evs arbitrary: s)
  case Nil
  then show ?case by simp
next
  case (Cons ev evs)
  show ?case
  proof (cases ev)
    case (Deliver m)
    then show ?thesis
      using Cons.IH [of "handle_task_response m s"] by (simp add: handle_task_response_def)
  next
    case (Wake t)
    then show ?thesis
      using Cons.IH [of s] by (simp split: option.splits)
  qed
qed

lemma uuid_count_send_task_to_agent:
  assumes "a2a_client sA"
  shows "uuid_count (snd (send_task_to_agent eA rcp tt d timeout start_time evs sA))
           = Suc (Suc (uuid_count sA))"
  using assms
  by (simp add: send_task_to_agent_def fresh_uuid_def Let_def uuid_count_wait_for_response
      send_message_def)

lemma requester_task_ids:
  assumes "a2a_client sA"
  shows "list_all (\<lambda>q. map_of (payload q) ''task_id'' = Some (JStr (uuid4 eA (uuid_count sA))))
           (published_since sA (snd (send_task_to_agent eA rcp tt d timeout start_time evs sA)))"
proof -
  let ?P = "published_since sA (snd (send_task_to_agent eA rcp tt d timeout start_time evs sA))"
  have "map (\<lambda>q. (message_type q, map_of (payload q) ''task_id'')) ?P
         = [(TASK_REQUEST, Some (JStr (uuid4 eA (uuid_count sA))))]"
    using assms by (rule send_task_to_agent_published)
  then obtain q where "?P = [q]" "map_of (payload q) ''task_id'' = Some (JStr (uuid4 eA (uuid_count sA)))"
    by (auto simp: map_eq_Cons_conv)
  then show ?thesis by simp
qed

lemma inj_unary_uuid: "inj (unary_uuid p)"
  by (simp add: inj_def unary_uuid_def)

text \<open>
  Claim C9. When the payload of a task request has no \<open>task_id\<close> key, the handler draws a
  UUID and every message it publishes is a task response to the sender whose \<open>task_id\<close>
  is that UUID; there is exactly one such response when the bus client is up and the task
  type is hashable. The draw is consumed: the response's own message id is the next draw
  and the agent's draw count has advanced, so with a generator that never repeats a value
  the task id differs from the message id. The task id a requester generates is the one
  \<^verbatim>\<open>send_task_to_agent\<close> puts into the request it publishes; the response's task id
  differs from it, both when requester and responder draw from generators that share no
  value (two processes) and when they draw from one generator that never repeats a value,
  at different draws (one process), as is the case when the handler draws after the
  requester's call has made its two draws.
\<close>

theorem missing_task_id_fresh_uuid:
  assumes "map_of (payload m) ''task_id'' = None"
  shows "\<exists>new. outbox (handle_task_request e m s) = outbox s @ new
      \<and> list_all (\<lambda>cr. message_type (snd cr) = TASK_RESPONSE \<and> recipient_id (snd cr) = sender_id m
            \<and> map_of (payload (snd cr)) ''task_id'' = Some (JStr (uuid4 e (uuid_count s)))
            \<and> message_id (snd cr) = uuid4 e (Suc (uuid_count s))) new
      \<and> (a2a_client s \<and> hashable (dict_get (payload m) ''task_type'' JNull) \<longrightarrow> length new = 1)
      \<and> uuid_count s < uuid_count (handle_task_request e m s)
      \<and> (inj (uuid4 e) \<longrightarrow>
           list_all (\<lambda>cr. map_of (payload (snd cr)) ''task_id'' \<noteq> Some (JStr (message_id (snd cr)))) new)
      \<and> (a2a_client sA \<longrightarrow>
           map (\<lambda>q. (message_type q, map_of (payload q) ''task_id''))
             (published_since sA (snd (send_task_to_agent eA rcp tt d timeout start_time evs sA)))
           = [(TASK_REQUEST, Some (JStr (uuid4 eA (uuid_count sA))))])
      \<and> (a2a_client sA \<and> (\<forall>i j. uuid4 eA i \<noteq> uuid4 e j) \<longrightarrow>
           list_all (\<lambda>cr. list_all (\<lambda>q. map_of (payload (snd cr)) ''task_id'' \<noteq> map_of (payload q) ''task_id'')
              (published_since sA (snd (send_task_to_agent eA rcp tt d timeout start_time evs sA)))) new)
      \<and> (a2a_client sA \<and> inj (uuid4 e) \<and> uuid_count sA \<noteq> uuid_count s \<longrightarrow>
           list_all (\<lambda>cr. list_all (\<lambda>q. map_of (payload (snd cr)) ''task_id'' \<noteq> map_of (payload q) ''task_id'')
              (published_since sA (snd (send_task_to_agent e rcp tt d timeout start_time evs sA)))) new)
      \<and> (a2a_client sA \<and> inj (uuid4 e)
            \<and> uuid_count (snd (send_task_to_agent e rcp tt d timeout start_time evs sA)) \<le> uuid_count s
          \<longrightarrow>
           list_all (\<lambda>cr. list_all (\<lambda>q. map_of (payload (snd cr)) ''task_id'' \<noteq> map_of (payload q) ''task_id'')
              (published_since sA (snd (send_task_to_agent e rcp tt d timeout start_time evs sA)))) new)"
proof -
  let ?n = "uuid_count s"
  from handle_task_request_drawn [OF assms, of e s]
  obtain new where n: "outbox (handle_task_request e m s) = outbox s @ new"
    "list_all (\<lambda>cr. message_type (snd cr) = TASK_RESPONSE \<and> recipient_id (snd cr) = sender_id m
            \<and> map_of (payload (snd cr)) ''task_id'' = Some (JStr (uuid4 e ?n))
            \<and> message_id (snd cr) = uuid4 e (Suc ?n)) new"
    "a2a_client s \<and> hashable (dict_get (payload m) ''task_type'' JNull) \<longrightarrow> length new = 1"
    "?n < uuid_count (handle_task_request e m s)"
    by blast
  have ids: "\<forall>cr \<in> set new. map_of (payload (snd cr)) ''task_id'' = Some (JStr (uuid4 e ?n))
      \<and> message_id (snd cr) = uuid4 e (Suc ?n)"
    using n(2) by (simp add: list_all_iff)
  have own: "list_all (\<lambda>cr. map_of (payload (snd cr)) ''task_id'' \<noteq> Some (JStr (message_id (snd cr)))) new"
    if "inj (uuid4 e)"
  proof -
    have "uuid4 e ?n \<noteq> uuid4 e (Suc ?n)"
      using that by (auto dest: injD)
    then show ?thesis using ids by (simp add: list_all_iff)
  qed
  have pub: "map (\<lambda>q. (message_type q, map_of (payload q) ''task_id''))
             (published_since sA (snd (send_task_to_agent eA rcp tt d timeout start_time evs sA)))
           = [(TASK_REQUEST, Some (JStr (uuid4 eA (uuid_count sA))))]"
    if "a2a_client sA"
    using that by (rule send_task_to_agent_published)
  have other: "list_all (\<lambda>cr. list_all (\<lambda>q. map_of (payload (snd cr)) ''task_id'' \<noteq> map_of (payload q) ''task_id'')
              (published_since sA (snd (send_task_to_agent eA rcp tt d timeout start_time evs sA)))) new"
    if "a2a_client sA" "\<forall>i j. uuid4 eA i \<noteq> uuid4 e j"
  proof -
    have "uuid4 e ?n \<noteq> uuid4 eA (uuid_count sA)"
      using that(2) by metis
    then show ?thesis
      using ids requester_task_ids [OF that(1), of eA rcp tt d timeout start_time evs]
      by (simp add: list_all_iff)
  qed
  have same: "list_all (\<lambda>cr. list_all (\<lambda>q. map_of (payload (snd cr)) ''task_id'' \<noteq> map_of (payload q) ''task_id'')
              (published_since sA (snd (send_task_to_agent e rcp tt d timeout start_time evs sA)))) new"
    if "a2a_client sA" "inj (uuid4 e)" "uuid_count sA \<noteq> ?n"
  proof -
    have "uuid4 e ?n \<noteq> uuid4 e (uuid_count sA)"
      using that(2,3) by (auto dest: injD)
    then show ?thesis
      using ids requester_task_ids [OF that(1), of e rcp tt d timeout start_time evs]
      by (simp add: list_all_iff)
  qed
  have later: "list_all (\<lambda>cr. list_all (\<lambda>q. map_of (payload (snd cr)) ''task_id'' \<noteq> map_of (payload q) ''task_id'')
              (published_since sA (snd (send_task_to_agent e rcp tt d timeout start_time evs sA)))) new"
    if "a2a_client sA" "inj (uuid4 e)"
      "uuid_count (snd (send_task_to_agent e rcp tt d timeout start_time evs sA)) \<le> ?n"
  proof -
    have "uuid_count sA \<noteq> ?n"
      using that(3) uuid_count_send_task_to_agent [OF that(1), of e rcp tt d timeout start_time evs]
      by simp
    then show ?thesis using that(1,2) by (intro same)
  qed
  show ?thesis
    using n own pub other same later by (intro exI [of _ new]) simp
qed

theorem missing_task_id_fresh_uuid_witness:
  "map_of (payload (demo_message ''alice'' TASK_REQUEST [(''task_type'', JStr ''add'')] (Some ''c2ln'')))
      ''task_id'' = None
   \<and> a2a_client demo_agent
   \<and> hashable (dict_get [(''task_type'', JStr ''add'')] ''task_type'' JNull)
   \<and> inj (uuid4 (demo_env\<lparr>uuid4 := unary_uuid ''b''\<rparr>))
   \<and> (\<forall>i j. uuid4 (demo_env\<lparr>uuid4 := unary_uuid ''a''\<rparr>) i
              \<noteq> uuid4 (demo_env\<lparr>uuid4 := unary_uuid ''b''\<rparr>) j)
   \<and> a2a_client (demo_agent\<lparr>agent_id := ''alice''\<rparr>)
   \<and> uuid_count (demo_agent\<lparr>agent_id := ''alice'', uuid_count := 3\<rparr>) \<noteq> uuid_count demo_agent
   \<and> map (\<lambda>cr. (fst cr, message_type (snd cr), map_of (payload (snd cr)) ''task_id'',
                  message_id (snd cr)))
        (outbox (handle_task_request (demo_env\<lparr>uuid4 := unary_uuid ''b''\<rparr>)
           (demo_message ''alice'' TASK_REQUEST [(''task_type'', JStr ''add'')] (Some ''c2ln''))
           demo_agent))
      = [(''agentic:agent:alice'', TASK_RESPONSE, Some (JStr ''bi''), ''bii'')]
   \<and> uuid_count (handle_task_request (demo_env\<lparr>uuid4 := unary_uuid ''b''\<rparr>)
           (demo_message ''alice'' TASK_REQUEST [(''task_type'', JStr ''add'')] (Some ''c2ln''))
           demo_agent) = 2
   \<and> map (\<lambda>q. (message_type q, map_of (payload q) ''task_id''))
        (published_since (demo_agent\<lparr>agent_id := ''alice''\<rparr>)
           (snd (send_task_to_agent (demo_env\<lparr>uuid4 := unary_uuid ''a''\<rparr>) ''bob'' ''add''
                   (JObj []) 30 0 [] (demo_agent\<lparr>agent_id := ''alice''\<rparr>))))
      = [(TASK_REQUEST, Some (JStr ''ai''))]
   \<and> map (\<lambda>q. (message_type q, map_of (payload q) ''task_id''))
        (published_since (demo_agent\<lparr>agent_id := ''alice'', uuid_count := 3\<rparr>)
           (snd (send_task_to_agent (demo_env\<lparr>uuid4 := unary_uuid ''b''\<rparr>) ''bob'' ''add''
                   (JObj []) 30 0 [] (demo_agent\<lparr>agent_id := ''alice'', uuid_count := 3\<rparr>))))
      = [(TASK_REQUEST, Some (JStr ''biiii''))]
   \<and> uuid_count (snd (send_task_to_agent (demo_env\<lparr>uuid4 := unary_uuid ''b''\<rparr>) ''bob'' ''add''
                   (JObj []) 30 0 [] (demo_agent\<lparr>agent_id := ''alice'', uuid_count := 3\<rparr>))) = 5
   \<and> (5::nat) \<le> uuid_count (demo_agent\<lparr>uuid_count := 5\<rparr>)
   \<and> map (\<lambda>cr. map_of (payload (snd cr)) ''task_id'')
        (outbox (handle_task_request (demo_env\<lparr>uuid4 := unary_uuid ''b''\<rparr>)
           (demo_message ''alice'' TASK_REQUEST [(''task_type'', JStr ''add'')] (Some ''c2ln''))
           (demo_agent\<lparr>uuid_count := 5\<rparr>)))
      = [Some (JStr ''biiiiii'')]"
proof -
  let ?m = "demo_message ''alice'' TASK_REQUEST [(''task_type'', JStr ''add'')] (Some ''c2ln'')"
  let ?eb = "demo_env\<lparr>uuid4 := unary_uuid ''b''\<rparr>"
  let ?ea = "demo_env\<lparr>uuid4 := unary_uuid ''a''\<rparr>"
  have none: "map_of (payload ?m) ''task_id'' = None"
    by (simp add: demo_message_def)
  have i: "inj (uuid4 ?eb)"
    by (simp add: inj_unary_uuid)
  have d: "\<forall>i j. uuid4 ?ea i \<noteq> uuid4 ?eb j"
    by (simp add: unary_uuid_def)
  note t1 = missing_task_id_fresh_uuid [OF none, of ?eb demo_agent
      "demo_agent\<lparr>agent_id := ''alice''\<rparr>" ?ea "''bob''" "''add''" "JObj []" 30 0 "[]"]
  note t2 = missing_task_id_fresh_uuid [OF none, of ?eb demo_agent
      "demo_agent\<lparr>agent_id := ''alice'', uuid_count := 3\<rparr>" ?ea "''bob''" "''add''" "JObj []" 30 0 "[]"]
  have ev: "map (\<lambda>cr. (fst cr, message_type (snd cr), map_of (payload (snd cr)) ''task_id'',
                  message_id (snd cr)))
        (outbox (handle_task_request ?eb ?m demo_agent))
      = [(''agentic:agent:alice'', TASK_RESPONSE, Some (JStr ''bi''), ''bii'')]"
    "uuid_count (handle_task_request ?eb ?m demo_agent) = 2"
    by (simp_all add: handle_task_request_def send_task_response_def send_message_def
        prepare_message_def target_channel_def fresh_uuid_def demo_agent_def demo_message_def
        demo_env_def dict_get_def py_str_def unary_uuid_def Let_def)
  have rq: "map (\<lambda>q. (message_type q, map_of (payload q) ''task_id''))
        (published_since (demo_agent\<lparr>agent_id := ''alice''\<rparr>)
           (snd (send_task_to_agent ?ea ''bob'' ''add'' (JObj []) 30 0 []
                   (demo_agent\<lparr>agent_id := ''alice''\<rparr>))))
      = [(TASK_REQUEST, Some (JStr ''ai''))]"
    "map (\<lambda>q. (message_type q, map_of (payload q) ''task_id''))
        (published_since (demo_agent\<lparr>agent_id := ''alice'', uuid_count := 3\<rparr>)
           (snd (send_task_to_agent ?eb ''bob'' ''add'' (JObj []) 30 0 []
                   (demo_agent\<lparr>agent_id := ''alice'', uuid_count := 3\<rparr>))))
      = [(TASK_REQUEST, Some (JStr ''biiii''))]"
    by (simp_all add: published_since_def demo_eval unary_uuid_def numeral_3_eq_3)
  note t3 = missing_task_id_fresh_uuid [OF none, of ?eb "demo_agent\<lparr>uuid_count := 5\<rparr>"
      "demo_agent\<lparr>agent_id := ''alice'', uuid_count := 3\<rparr>" ?ea "''bob''" "''add''" "JObj []" 30 0 "[]"]
  have ev5: "uuid_count (snd (send_task_to_agent ?eb ''bob'' ''add'' (JObj []) 30 0 []
                   (demo_agent\<lparr>agent_id := ''alice'', uuid_count := 3\<rparr>))) = 5"
    "map (\<lambda>cr. map_of (payload (snd cr)) ''task_id'')
        (outbox (handle_task_request ?eb ?m (demo_agent\<lparr>uuid_count := 5\<rparr>)))
      = [Some (JStr ''biiiiii'')]"
    by (simp_all add: handle_task_request_def send_task_response_def send_message_def
        prepare_message_def target_channel_def fresh_uuid_def demo_agent_def demo_message_def
        demo_env_def dict_get_def py_str_def unary_uuid_def send_task_to_agent_def Let_def
        eval_nat_numeral)
  show ?thesis
    using t1 t2 t3 none i d ev rq ev5 by (simp add: demo_agent_def dict_get_def)
qed

section \<open>Correlating responses with sent tasks\<close>

lemma matching_key:
  assumes "map_of (payload m) ''task_id'' = Some (JStr tid)"
  shows "py_str (dict_get (payload m) ''task_id'' JNull) = tid" and "payload m \<noteq> []"
  using assms by (auto simp: dict_get_def py_str_def)

lemma memory_handle_task_response:
  "memory (handle_task_response m s) =
     (memory s)(''task_response_'' @ py_str (dict_get (payload m) ''task_id'' JNull) \<mapsto> JObj (payload m))"
  by (simp add: handle_task_response_def)

lemma handle_task_response_overwrite:
  assumes "py_str (dict_get (payload m1) ''task_id'' JNull) = py_str (dict_get (payload m2) ''task_id'' JNull)"
  shows "handle_task_response m2 (handle_task_response m1 s) = handle_task_response m2 s"
  using assms by (simp add: handle_task_response_def)

lemma wait_poll_found:
  assumes "t - start_time < timeout" and "memory s (''task_response_'' @ tid) = Some r"
    and "py_truthy r"
  shows "wait_for_response start_time timeout tid (Wake t # es) s = (Some (Inr r), s)"
  using assms by simp

lemma wait_poll_late:
  assumes "\<not> t - start_time < timeout"
  shows "wait_for_response start_time timeout tid (Wake t # es) s = (Some (Inl (TimeoutError tid)), s)"
  using assms by simp

lemma wait_last_delivery:
  assumes "ms \<noteq> []"
    and "list_all (\<lambda>m. map_of (payload m) ''task_id'' = Some (JStr tid)) ms"
    and "t - start_time < timeout"
  shows "fst (wait_for_response start_time timeout tid (map Deliver ms @ Wake t # es) s)
           = Some (Inr (JObj (payload (last ms))))"
  using assms
proof (induction ms arbitrary: s)
  case Nil
  then show ?case by simp
next
  case (Cons m ms)
  show ?case
  proof (cases "ms = []")
    case True
    have k: "py_str (dict_get (payload m) ''task_id'' JNull) = tid" and ne: "payload m \<noteq> []"
      using Cons.prems(2) matching_key [of m tid] by simp_all
    have "memory (handle_task_response m s) (''task_response_'' @ tid) = Some (JObj (payload m))"
      by (simp add: memory_handle_task_response k)
    then show ?thesis
      using True Cons.prems(3) ne by simp
  next
    case False
    then show ?thesis
      using Cons.IH [of "handle_task_response m s"] Cons.prems by simp
  qed
qed

lemma wait_no_response_timeout:
  assumes "memory s (''task_response_'' @ tid) = None"
    and "list_all (\<lambda>ev. \<not> is_response_for tid ev) pre"
    and "\<not> t - start_time < timeout"
  shows "fst (wait_for_response start_time timeout tid (pre @ Wake t # post) s)
           = Some (Inl (TimeoutError tid))"
  using assms
proof (induction pre arbitrary: s)
  case Nil
  then show ?case by simp
next
  case (Cons ev pre)
  show ?case
  proof (cases ev)
    case (Deliver m)
    then have "py_str (dict_get (payload m) ''task_id'' JNull) \<noteq> tid"
      using Cons.prems(2) by simp
    then have "memory (handle_task_response m s) (''task_response_'' @ tid) = None"
      using Cons.prems(1) by (simp add: memory_handle_task_response)
    then show ?thesis
      using Deliver Cons.IH [of "handle_task_response m s"] Cons.prems by simp
  next
    case (Wake t')
    then show ?thesis
      using Cons.IH [of s] Cons.prems by simp
  qed
qed

lemma wait_no_response_pending:
  assumes "memory s (''task_response_'' @ tid) = None"
    and "list_all (\<lambda>ev. \<not> is_response_for tid ev) evs"
  shows "fst (wait_for_response start_time timeout tid evs s) \<in> {None, Some (Inl (TimeoutError tid))}"
  using assms
proof (induction evs arbitrary: s)
  case Nil
  then show ?case by simp
next
  case (Cons ev evs)
  show ?case
  proof (cases ev)
    case (Deliver m)
    then have "py_str (dict_get (payload m) ''task_id'' JNull) \<noteq> tid"
      using Cons.prems(2) by simp
    then have "memory (handle_task_response m s) (''task_response_'' @ tid) = None"
      using Cons.prems(1) by (simp add: memory_handle_task_response)
    then show ?thesis
      using Deliver Cons.IH [of "handle_task_response m s"] Cons.prems by simp
  next
    case (Wake t')
    then show ?thesis
      using Cons.IH [of s] Cons.prems by simp
  qed
qed

lemma send_task_to_agent_wait:
  assumes "a2a_client s"
  shows "\<exists>s'. memory s' = memory s
     \<and> send_task_to_agent e rcp tt d timeout start_time evs s
         = wait_for_response start_time timeout (uuid4 e (uuid_count s)) evs s'"
  using assms
  apply (simp add: send_task_to_agent_def fresh_uuid_def send_message_def Let_def)
  apply (rule exI, rule conjI [rotated], rule refl)
  apply simp
  done


lemma wait_prefix_waiting:
  assumes "memory s (''task_response_'' @ tid) = None"
    and "list_all (leaves_waiting start_time timeout tid) pre"
  shows "\<exists>s'. memory s' (''task_response_'' @ tid) = None
     \<and> wait_for_response start_time timeout tid (pre @ rest) s
         = wait_for_response start_time timeout tid rest s'"
  using assms
proof (induction pre arbitrary: s)
  case Nil
  then show ?case by auto
next
  case (Cons ev pre)
  show ?case
  proof (cases ev)
    case (Deliver m)
    then have "py_str (dict_get (payload m) ''task_id'' JNull) \<noteq> tid"
      using Cons.prems(2) by simp
    then have "memory (handle_task_response m s) (''task_response_'' @ tid) = None"
      using Cons.prems(1) by (simp add: memory_handle_task_response)
    then show ?thesis
      using Deliver Cons.IH [of "handle_task_response m s"] Cons.prems(2) by simp
  next
    case (Wake t')
    then show ?thesis
      using Cons.IH [of s] Cons.prems by simp
  qed
qed

lemma wait_map_Deliver:
  "wait_for_response start_time timeout tid (map Deliver mid @ rest) s
     = wait_for_response start_time timeout tid rest (foldl (\<lambda>s m. handle_task_response m s) s mid)"
  by (induction mid arbitrary: s) simp_all

lemma memory_after_deliveries:
  assumes "list_all (\<lambda>m. carries_task_id tid m \<or> for_other_task tid m) mid"
  shows "memory (foldl (\<lambda>s m. handle_task_response m s) s mid) (''task_response_'' @ tid)
     = (if filter (carries_task_id tid) mid = [] then memory s (''task_response_'' @ tid)
        else Some (JObj (payload (last (filter (carries_task_id tid) mid)))))"
  using assms
proof (induction mid arbitrary: s)
  case Nil
  then show ?case by simp
next
  case (Cons m mid)
  have ih: "memory (foldl (\<lambda>s m. handle_task_response m s) (handle_task_response m s) mid)
        (''task_response_'' @ tid)
     = (if filter (carries_task_id tid) mid = []
        then memory (handle_task_response m s) (''task_response_'' @ tid)
        else Some (JObj (payload (last (filter (carries_task_id tid) mid)))))"
    using Cons.IH [of "handle_task_response m s"] Cons.prems by simp
  show ?case
  proof (cases "carries_task_id tid m")
    case True
    then have "py_str (dict_get (payload m) ''task_id'' JNull) = tid"
      using matching_key(1) [of m tid] by (simp add: carries_task_id_def)
    then have "memory (handle_task_response m s) (''task_response_'' @ tid) = Some (JObj (payload m))"
      by (simp add: memory_handle_task_response)
    then show ?thesis using True ih by simp
  next
    case False
    then have "for_other_task tid m" using Cons.prems by simp
    then have "memory (handle_task_response m s) (''task_response_'' @ tid)
        = memory s (''task_response_'' @ tid)"
      by (simp add: memory_handle_task_response for_other_task_def)
    then show ?thesis using False ih by simp
  qed
qed

lemma last_carries_truthy:
  assumes "filter (carries_task_id tid) mid \<noteq> []"
  shows "py_truthy (JObj (payload (last (filter (carries_task_id tid) mid))))"
proof -
  have "last (filter (carries_task_id tid) mid) \<in> set (filter (carries_task_id tid) mid)"
    using assms by (rule last_in_set)
  then have "carries_task_id tid (last (filter (carries_task_id tid) mid))" by simp
  then show ?thesis
    using matching_key(2) by (simp add: carries_task_id_def)
qed

lemma wait_returns_last_delivered:
  assumes none: "memory s (''task_response_'' @ tid) = None"
    and pre: "list_all (leaves_waiting start_time timeout tid) pre"
    and mid: "list_all (\<lambda>m. carries_task_id tid m \<or> for_other_task tid m) mid"
    and some: "filter (carries_task_id tid) mid \<noteq> []"
    and intime: "t - start_time < timeout"
  shows "fst (wait_for_response start_time timeout tid (pre @ map Deliver mid @ Wake t # evs) s)
           = Some (Inr (JObj (payload (last (filter (carries_task_id tid) mid)))))"
proof -
  from wait_prefix_waiting [OF none pre, of "map Deliver mid @ Wake t # evs"]
  obtain s' where s': "memory s' (''task_response_'' @ tid) = None"
    "wait_for_response start_time timeout tid (pre @ map Deliver mid @ Wake t # evs) s
       = wait_for_response start_time timeout tid (map Deliver mid @ Wake t # evs) s'"
    by blast
  let ?s2 = "foldl (\<lambda>s m. handle_task_response m s) s' mid"
  have m: "memory ?s2 (''task_response_'' @ tid)
      = Some (JObj (payload (last (filter (carries_task_id tid) mid))))"
    using memory_after_deliveries [OF mid, of s'] some by simp
  have "wait_for_response start_time timeout tid (Wake t # evs) ?s2
      = (Some (Inr (JObj (payload (last (filter (carries_task_id tid) mid))))), ?s2)"
    using intime m last_carries_truthy [OF some] by (rule wait_poll_found)
  then show ?thesis
    by (simp add: s'(2) wait_map_Deliver)
qed

lemma wait_late_poll:
  assumes none: "memory s (''task_response_'' @ tid) = None"
    and pre: "list_all (leaves_waiting start_time timeout tid) pre"
    and late: "\<not> t - start_time < timeout"
  shows "fst (wait_for_response start_time timeout tid (pre @ map Deliver mid @ Wake t # evs) s)
           = Some (Inl (TimeoutError tid))"
proof -
  from wait_prefix_waiting [OF none pre, of "map Deliver mid @ Wake t # evs"]
  obtain s' where
    "wait_for_response start_time timeout tid (pre @ map Deliver mid @ Wake t # evs) s
       = wait_for_response start_time timeout tid (map Deliver mid @ Wake t # evs) s'"
    by blast
  then show ?thesis
    using late by (simp add: wait_map_Deliver)
qed

text \<open>
  Claim C3, amended. On an agent whose bus client is not set, \<^verbatim>\<open>send_task_to_agent\<close> raises
  \<^verbatim>\<open>RuntimeError\<close>. Otherwise the caller may first poll any number of times before the
  deadline and find nothing, while responses for other tasks are delivered; once
  responses carrying the task's id have been delivered and the caller polls before the
  deadline, the call returns the whole payload of the latest of them (task id, success
  flag, result and error), whether \<open>success\<close> is true or false: the carried error is
  returned, never raised. When no response for the task's id is delivered and the caller
  polls at or after the deadline, the call raises \<^verbatim>\<open>TimeoutError\<close>; as long as no such
  response is delivered the call either is still waiting or has raised \<^verbatim>\<open>TimeoutError\<close>;
  and a first poll at or after the deadline raises \<^verbatim>\<open>TimeoutError\<close> also when a response has
  been delivered since the last poll.
\<close>

theorem send_task_outcomes:
  "(\<not> a2a_client s \<longrightarrow>
      send_task_to_agent e rcp tt d timeout start_time evs s
        = (Some (Inl (RuntimeError ''A2A client not initialized'')), s))
   \<and> (a2a_client s \<and> ms \<noteq> []
        \<and> list_all (\<lambda>m. map_of (payload m) ''task_id'' = Some (JStr (uuid4 e (uuid_count s)))) ms
        \<and> t - start_time < timeout \<longrightarrow>
      fst (send_task_to_agent e rcp tt d timeout start_time (map Deliver ms @ Wake t # evs) s)
        = Some (Inr (JObj (payload (last ms)))))
   \<and> (a2a_client s \<and> memory s (''task_response_'' @ uuid4 e (uuid_count s)) = None
        \<and> list_all (leaves_waiting start_time timeout (uuid4 e (uuid_count s))) pre
        \<and> list_all (\<lambda>m. carries_task_id (uuid4 e (uuid_count s)) m
                          \<or> for_other_task (uuid4 e (uuid_count s)) m) mid
        \<and> filter (carries_task_id (uuid4 e (uuid_count s))) mid \<noteq> []
        \<and> t - start_time < timeout \<longrightarrow>
      fst (send_task_to_agent e rcp tt d timeout start_time
             (pre @ map Deliver mid @ Wake t # evs) s)
        = Some (Inr (JObj (payload (last (filter (carries_task_id (uuid4 e (uuid_count s))) mid))))))
   \<and> (a2a_client s \<and> memory s (''task_response_'' @ uuid4 e (uuid_count s)) = None
        \<and> list_all (\<lambda>ev. \<not> is_response_for (uuid4 e (uuid_count s)) ev) pre
        \<and> \<not> t - start_time < timeout \<longrightarrow>
      fst (send_task_to_agent e rcp tt d timeout start_time (pre @ Wake t # evs) s)
        = Some (Inl (TimeoutError (uuid4 e (uuid_count s)))))
   \<and> (a2a_client s \<and> memory s (''task_response_'' @ uuid4 e (uuid_count s)) = None
        \<and> list_all (\<lambda>ev. \<not> is_response_for (uuid4 e (uuid_count s)) ev) evs \<longrightarrow>
      fst (send_task_to_agent e rcp tt d timeout start_time evs s)
        \<in> {None, Some (Inl (TimeoutError (uuid4 e (uuid_count s))))})
   \<and> (a2a_client s \<and> memory s (''task_response_'' @ uuid4 e (uuid_count s)) = None
        \<and> list_all (leaves_waiting start_time timeout (uuid4 e (uuid_count s))) pre
        \<and> \<not> t - start_time < timeout \<longrightarrow>
      fst (send_task_to_agent e rcp tt d timeout start_time
             (pre @ map Deliver mid @ Wake t # evs) s)
        = Some (Inl (TimeoutError (uuid4 e (uuid_count s)))))"
proof (intro conjI impI)
  assume "\<not> a2a_client s"
  then show "send_task_to_agent e rcp tt d timeout start_time evs s
        = (Some (Inl (RuntimeError ''A2A client not initialized'')), s)"
    by (simp add: send_task_to_agent_def)
next
  assume h: "a2a_client s \<and> ms \<noteq> []
        \<and> list_all (\<lambda>m. map_of (payload m) ''task_id'' = Some (JStr (uuid4 e (uuid_count s)))) ms
        \<and> t - start_time < timeout"
  then obtain s' where
    "send_task_to_agent e rcp tt d timeout start_time (map Deliver ms @ Wake t # evs) s
         = wait_for_response start_time timeout (uuid4 e (uuid_count s)) (map Deliver ms @ Wake t # evs) s'"
    using send_task_to_agent_wait by blast
  then show "fst (send_task_to_agent e rcp tt d timeout start_time (map Deliver ms @ Wake t # evs) s)
        = Some (Inr (JObj (payload (last ms))))"
    using h by (simp add: wait_last_delivery)
next
  let ?tid = "uuid4 e (uuid_count s)"
  assume h: "a2a_client s \<and> memory s (''task_response_'' @ ?tid) = None
        \<and> list_all (leaves_waiting start_time timeout ?tid) pre
        \<and> list_all (\<lambda>m. carries_task_id ?tid m \<or> for_other_task ?tid m) mid
        \<and> filter (carries_task_id ?tid) mid \<noteq> []
        \<and> t - start_time < timeout"
  then obtain s' where s': "memory s' = memory s"
    "send_task_to_agent e rcp tt d timeout start_time (pre @ map Deliver mid @ Wake t # evs) s
         = wait_for_response start_time timeout ?tid (pre @ map Deliver mid @ Wake t # evs) s'"
    using send_task_to_agent_wait by blast
  have "fst (wait_for_response start_time timeout ?tid (pre @ map Deliver mid @ Wake t # evs) s')
        = Some (Inr (JObj (payload (last (filter (carries_task_id ?tid) mid)))))"
    using h s'(1) by (intro wait_returns_last_delivered) simp_all
  then show "fst (send_task_to_agent e rcp tt d timeout start_time
             (pre @ map Deliver mid @ Wake t # evs) s)
        = Some (Inr (JObj (payload (last (filter (carries_task_id ?tid) mid)))))"
    by (simp add: s'(2))
next
  assume h: "a2a_client s \<and> memory s (''task_response_'' @ uuid4 e (uuid_count s)) = None
        \<and> list_all (\<lambda>ev. \<not> is_response_for (uuid4 e (uuid_count s)) ev) pre
        \<and> \<not> t - start_time < timeout"
  then obtain s' where s': "memory s' = memory s"
    "send_task_to_agent e rcp tt d timeout start_time (pre @ Wake t # evs) s
         = wait_for_response start_time timeout (uuid4 e (uuid_count s)) (pre @ Wake t # evs) s'"
    using send_task_to_agent_wait by blast
  have "fst (wait_for_response start_time timeout (uuid4 e (uuid_count s)) (pre @ Wake t # evs) s')
        = Some (Inl (TimeoutError (uuid4 e (uuid_count s))))"
    using h s'(1) by (intro wait_no_response_timeout) simp_all
  then show "fst (send_task_to_agent e rcp tt d timeout start_time (pre @ Wake t # evs) s)
        = Some (Inl (TimeoutError (uuid4 e (uuid_count s))))"
    by (simp add: s'(2))
next
  assume h: "a2a_client s \<and> memory s (''task_response_'' @ uuid4 e (uuid_count s)) = None
        \<and> list_all (\<lambda>ev. \<not> is_response_for (uuid4 e (uuid_count s)) ev) evs"
  then obtain s' where s': "memory s' = memory s"
    "send_task_to_agent e rcp tt d timeout start_time evs s
         = wait_for_response start_time timeout (uuid4 e (uuid_count s)) evs s'"
    using send_task_to_agent_wait by blast
  have "fst (wait_for_response start_time timeout (uuid4 e (uuid_count s)) evs s')
        \<in> {None, Some (Inl (TimeoutError (uuid4 e (uuid_count s))))}"
    using h s'(1) by (intro wait_no_response_pending) simp_all
  then show "fst (send_task_to_agent e rcp tt d timeout start_time evs s)
        \<in> {None, Some (Inl (TimeoutError (uuid4 e (uuid_count s))))}"
    by (simp add: s'(2))
next
  let ?tid = "uuid4 e (uuid_count s)"
  assume h: "a2a_client s \<and> memory s (''task_response_'' @ ?tid) = None
        \<and> list_all (leaves_waiting start_time timeout ?tid) pre
        \<and> \<not> t - start_time < timeout"
  then obtain s' where s': "memory s' = memory s"
    "send_task_to_agent e rcp tt d timeout start_time (pre @ map Deliver mid @ Wake t # evs) s
         = wait_for_response start_time timeout ?tid (pre @ map Deliver mid @ Wake t # evs) s'"
    using send_task_to_agent_wait by blast
  have "fst (wait_for_response start_time timeout ?tid (pre @ map Deliver mid @ Wake t # evs) s')
        = Some (Inl (TimeoutError ?tid))"
    using h s'(1) by (intro wait_late_poll) simp_all
  then show "fst (send_task_to_agent e rcp tt d timeout start_time
             (pre @ map Deliver mid @ Wake t # evs) s)
        = Some (Inl (TimeoutError ?tid))"
    by (simp add: s'(2))
qed

theorem send_task_outcomes_witness:
  "\<not> a2a_client (demo_agent\<lparr>a2a_client := False\<rparr>)
   \<and> fst (send_task_to_agent demo_env ''alice'' ''add'' (JObj []) 30 0 []
           (demo_agent\<lparr>a2a_client := False\<rparr>))
       = Some (Inl (RuntimeError ''A2A client not initialized''))
   \<and> a2a_client demo_agent
   \<and> uuid4 demo_env (uuid_count demo_agent) = ''uuid-0''
   \<and> (1::real) - 0 < 30
   \<and> fst (send_task_to_agent demo_env ''alice'' ''add'' (JObj []) 30 0
        [Deliver (demo_message ''alice'' TASK_RESPONSE
           [(''task_id'', JStr ''uuid-0''), (''success'', JBool True),
            (''result'', JInt 5), (''error'', JNull)] (Some ''c2ln'')),
         Wake 1] demo_agent)
       = Some (Inr (JObj [(''task_id'', JStr ''uuid-0''), (''success'', JBool True),
                          (''result'', JInt 5), (''error'', JNull)]))
   \<and> memory demo_agent (''task_response_'' @ ''uuid-0'') = None
   \<and> list_all (leaves_waiting 0 30 ''uuid-0'')
        [Wake 0,
         Deliver (demo_message ''alice'' TASK_RESPONSE
           [(''task_id'', JStr ''other''), (''success'', JBool True),
            (''result'', JInt 9), (''error'', JNull)] (Some ''c2ln'')),
         Wake (1 / 10)]
   \<and> fst (send_task_to_agent demo_env ''alice'' ''add'' (JObj []) 30 0
        [Wake 0,
         Deliver (demo_message ''alice'' TASK_RESPONSE
           [(''task_id'', JStr ''other''), (''success'', JBool True),
            (''result'', JInt 9), (''error'', JNull)] (Some ''c2ln'')),
         Wake (1 / 10),
         Deliver (demo_message ''alice'' TASK_RESPONSE
           [(''task_id'', JStr ''uuid-0''), (''success'', JBool False),
            (''result'', JNull), (''error'', JStr ''boom'')] (Some ''c2ln'')),
         Wake (2 / 10), Wake 31] demo_agent)
       = Some (Inr (JObj [(''task_id'', JStr ''uuid-0''), (''success'', JBool False),
                          (''result'', JNull), (''error'', JStr ''boom'')]))
   \<and> \<not> (31::real) - 0 < 30
   \<and> fst (send_task_to_agent demo_env ''alice'' ''add'' (JObj []) 30 0
        [Wake 1,
         Deliver (demo_message ''alice'' TASK_RESPONSE
           [(''task_id'', JStr ''other''), (''success'', JBool True),
            (''result'', JInt 5), (''error'', JNull)] (Some ''c2ln'')),
         Wake 31] demo_agent)
       = Some (Inl (TimeoutError ''uuid-0''))
   \<and> fst (send_task_to_agent demo_env ''alice'' ''add'' (JObj []) 30 0 [Wake 1] demo_agent) = None
   \<and> list_all (leaves_waiting 0 30 ''uuid-0'') [Wake 29]
   \<and> fst (send_task_to_agent demo_env ''alice'' ''add'' (JObj []) 30 0
        [Wake 29,
         Deliver (demo_message ''alice'' TASK_RESPONSE
           [(''task_id'', JStr ''uuid-0''), (''success'', JBool True),
            (''result'', JInt 5), (''error'', JNull)] (Some ''c2ln'')),
         Wake 31] demo_agent)
       = Some (Inl (TimeoutError ''uuid-0''))"
proof -
  let ?ok = "demo_message ''alice'' TASK_RESPONSE
           [(''task_id'', JStr ''uuid-0''), (''success'', JBool True),
            (''result'', JInt 5), (''error'', JNull)] (Some ''c2ln'')"
  let ?bad = "demo_message ''alice'' TASK_RESPONSE
           [(''task_id'', JStr ''uuid-0''), (''success'', JBool False),
            (''result'', JNull), (''error'', JStr ''boom'')] (Some ''c2ln'')"
  let ?other = "demo_message ''alice'' TASK_RESPONSE
           [(''task_id'', JStr ''other''), (''success'', JBool True),
            (''result'', JInt 5), (''error'', JNull)] (Some ''c2ln'')"
  let ?other9 = "demo_message ''alice'' TASK_RESPONSE
           [(''task_id'', JStr ''other''), (''success'', JBool True),
            (''result'', JInt 9), (''error'', JNull)] (Some ''c2ln'')"
  note a = send_task_outcomes [of "demo_agent\<lparr>a2a_client := False\<rparr>" demo_env "''alice''" "''add''"
      "JObj []" 30 0 "[]" "[?ok]" 1 "[]" "[]"]
  note b = send_task_outcomes [of demo_agent demo_env "''alice''" "''add''"
      "JObj []" 30 0 "[Wake 1]" "[?ok]" 1
      "[Wake 1, Deliver ?other]" "[?ok]"]
  note c = send_task_outcomes [of demo_agent demo_env "''alice''" "''add''"
      "JObj []" 30 0 "[Wake 31]" "[?ok]" "2 / 10"
      "[Wake 0, Deliver ?other9, Wake (1 / 10)]" "[?bad]"]
  note d = send_task_outcomes [of demo_agent demo_env "''alice''" "''add''"
      "JObj []" 30 0 "[]" "[?ok]" 31 "[Wake 1, Deliver ?other]" "[?ok]"]
  note f = send_task_outcomes [of demo_agent demo_env "''alice''" "''add''"
      "JObj []" 30 0 "[]" "[?ok]" 31 "[Wake 29]" "[?ok]"]
  show ?thesis
    using a b c d f by (simp add: demo_eval)
qed

text \<open>
  The claim C3 as first stated has the carried error raised when \<open>success\<close> is false.
  Here a response with \<open>success = False\<close> and error \<open>boom\<close> arrives before the deadline:
  the call returns its payload.
\<close>

theorem send_task_returns_failure_counterexample:
  "fst (send_task_to_agent demo_env ''alice'' ''add'' (JObj []) 30 0
     [Deliver (demo_message ''alice'' TASK_RESPONSE
        [(''task_id'', JStr ''uuid-0''), (''success'', JBool False),
         (''result'', JNull), (''error'', JStr ''boom'')] (Some ''c2ln'')),
      Wake 1] demo_agent)
   = Some (Inr (JObj [(''task_id'', JStr ''uuid-0''), (''success'', JBool False),
                      (''result'', JNull), (''error'', JStr ''boom'')]))"
  by (simp add: demo_eval)

text \<open>
  Claim C2, amended. A task response overwrites what an earlier response for the same
  task id had stored. After any number of polls before the deadline that found nothing,
  the caller of \<^verbatim>\<open>send_task_to_agent\<close> receives, at its first poll to find a response, the
  payload of the last response for its task id delivered before that poll; that result
  stands whatever is delivered afterwards.
\<close>

theorem task_response_last_write_wins:
  "(py_str (dict_get (payload m1) ''task_id'' JNull) = py_str (dict_get (payload m2) ''task_id'' JNull) \<longrightarrow>
      handle_task_response m2 (handle_task_response m1 s) = handle_task_response m2 s)
   \<and> (ms \<noteq> [] \<and> list_all (\<lambda>m. map_of (payload m) ''task_id'' = Some (JStr tid)) ms
        \<and> t - start_time < timeout \<longrightarrow>
      fst (wait_for_response start_time timeout tid (map Deliver ms @ Wake t # evs) s)
        = Some (Inr (JObj (payload (last ms)))))
   \<and> (memory s (''task_response_'' @ tid) = None
        \<and> list_all (leaves_waiting start_time timeout tid) pre
        \<and> list_all (\<lambda>m. carries_task_id tid m \<or> for_other_task tid m) mid
        \<and> filter (carries_task_id tid) mid \<noteq> []
        \<and> t - start_time < timeout \<longrightarrow>
      fst (wait_for_response start_time timeout tid (pre @ map Deliver mid @ Wake t # evs) s)
        = Some (Inr (JObj (payload (last (filter (carries_task_id tid) mid))))))"
  by (simp add: handle_task_response_overwrite wait_last_delivery wait_returns_last_delivered)

theorem task_response_last_write_wins_witness:
  "py_str (dict_get [(''task_id'', JStr ''uuid-0''), (''success'', JBool True),
                     (''result'', JInt 5), (''error'', JNull)] ''task_id'' JNull)
     = py_str (dict_get [(''task_id'', JStr ''uuid-0''), (''success'', JBool True),
                     (''result'', JInt 7), (''error'', JNull)] ''task_id'' JNull)
   \<and> memory (handle_task_response
        (demo_message ''alice'' TASK_RESPONSE
           [(''task_id'', JStr ''uuid-0''), (''success'', JBool True),
            (''result'', JInt 7), (''error'', JNull)] (Some ''c2ln''))
        (handle_task_response
          (demo_message ''alice'' TASK_RESPONSE
             [(''task_id'', JStr ''uuid-0''), (''success'', JBool True),
              (''result'', JInt 5), (''error'', JNull)] (Some ''c2ln''))
          demo_agent)) ''task_response_uuid-0''
     = Some (JObj [(''task_id'', JStr ''uuid-0''), (''success'', JBool True),
                   (''result'', JInt 7), (''error'', JNull)])
   \<and> (1::real) - 0 < 30
   \<and> fst (wait_for_response 0 30 ''uuid-0''
        [Deliver (demo_message ''alice'' TASK_RESPONSE
           [(''task_id'', JStr ''uuid-0''), (''success'', JBool True),
            (''result'', JInt 5), (''error'', JNull)] (Some ''c2ln'')),
         Wake 1,
         Deliver (demo_message ''alice'' TASK_RESPONSE
           [(''task_id'', JStr ''uuid-0''), (''success'', JBool True),
            (''result'', JInt 7), (''error'', JNull)] (Some ''c2ln''))] demo_agent)
     = Some (Inr (JObj [(''task_id'', JStr ''uuid-0''), (''success'', JBool True),
                        (''result'', JInt 5), (''error'', JNull)]))
   \<and> memory demo_agent (''task_response_'' @ ''uuid-0'') = None
   \<and> list_all (leaves_waiting 0 30 ''uuid-0'') [Wake 0]
   \<and> fst (wait_for_response 0 30 ''uuid-0''
        [Wake 0,
         Deliver (demo_message ''alice'' TASK_RESPONSE
           [(''task_id'', JStr ''uuid-0''), (''success'', JBool True),
            (''result'', JInt 5), (''error'', JNull)] (Some ''c2ln'')),
         Deliver (demo_message ''alice'' TASK_RESPONSE
           [(''task_id'', JStr ''other''), (''success'', JBool True),
            (''result'', JInt 9), (''error'', JNull)] (Some ''c2ln'')),
         Deliver (demo_message ''alice'' TASK_RESPONSE
           [(''task_id'', JStr ''uuid-0''), (''success'', JBool True),
            (''result'', JInt 7), (''error'', JNull)] (Some ''c2ln'')),
         Wake 1] demo_agent)
     = Some (Inr (JObj [(''task_id'', JStr ''uuid-0''), (''success'', JBool True),
                        (''result'', JInt 7), (''error'', JNull)]))"
proof -
  let ?r5 = "demo_message ''alice'' TASK_RESPONSE
           [(''task_id'', JStr ''uuid-0''), (''success'', JBool True),
            (''result'', JInt 5), (''error'', JNull)] (Some ''c2ln'')"
  let ?r7 = "demo_message ''alice'' TASK_RESPONSE
           [(''task_id'', JStr ''uuid-0''), (''success'', JBool True),
            (''result'', JInt 7), (''error'', JNull)] (Some ''c2ln'')"
  let ?o9 = "demo_message ''alice'' TASK_RESPONSE
           [(''task_id'', JStr ''other''), (''success'', JBool True),
            (''result'', JInt 9), (''error'', JNull)] (Some ''c2ln'')"
  note a = task_response_last_write_wins [of ?r5 ?r7 demo_agent "[?r5]" "''uuid-0''" 1 0 30
      "[Deliver ?r7]" "[Wake 0]" "[?r5, ?o9, ?r7]"]
  note b = task_response_last_write_wins [of ?r5 ?r7 demo_agent "[?r5]" "''uuid-0''" 1 0 30
      "[]" "[Wake 0]" "[?r5, ?o9, ?r7]"]
  show ?thesis
    using a b by (simp add: demo_eval)
qed

text \<open>
  The claim C2 as first stated makes the first response the caller-visible result and a
  later one a no-op. Two responses for the same task id delivered between two polls: the
  caller receives the second.
\<close>

theorem second_response_wins_counterexample:
  "fst (send_task_to_agent demo_env ''alice'' ''add'' (JObj []) 30 0
     [Deliver (demo_message ''alice'' TASK_RESPONSE
        [(''task_id'', JStr ''uuid-0''), (''success'', JBool True),
         (''result'', JInt 5), (''error'', JNull)] (Some ''c2ln'')),
      Deliver (demo_message ''alice'' TASK_RESPONSE
        [(''task_id'', JStr ''uuid-0''), (''success'', JBool True),
         (''result'', JInt 7), (''error'', JNull)] (Some ''c2ln'')),
      Wake 1] demo_agent)
   = Some (Inr (JObj [(''task_id'', JStr ''uuid-0''), (''success'', JBool True),
                      (''result'', JInt 7), (''error'', JNull)]))"
  by (simp add: demo_eval)

end
